theory Spec2Isabelle
  imports Complex_Main "HOL-Library.AList"
begin

section \<open>Numbers, vectors and the constants of js/utils.js\<close>

text \<open>
  A JavaScript number is modelled as a rational: every finite double is one, and the
  arithmetic of the model is exact where the double arithmetic rounds. The value
  \<^verbatim>\<open>Infinity\<close>, which the link check uses as the start of its running minimum, is the
  constructor \<open>Infinity\<close> of \<open>jsnum\<close>. A thrown \<^verbatim>\<open>TypeError\<close> (a property read on
  \<^verbatim>\<open>undefined\<close>) is the value \<open>None\<close> of the option monad.
\<close>

record vec3 =
  vx :: rat
  vy :: rat
  vz :: rat

datatype jsnum = Infinity | Num rat

fun num_lt :: "rat \<Rightarrow> jsnum \<Rightarrow> bool" where
  "num_lt a Infinity = True"
| "num_lt a (Num b) = (a < b)"

fun num_eq :: "rat \<Rightarrow> jsnum \<Rightarrow> bool" where
  "num_eq a Infinity = False"
| "num_eq a (Num b) = (a = b)"

datatype dimension = O_DIM | N_DIM

datatype facing = FaceX | FaceZ

definition O_SCALE :: rat where
  "O_SCALE = 1 / 8"

definition N_SCALE :: rat where
  "N_SCALE = 8"

definition O_SEARCH_RADIUS :: rat where
  "O_SEARCH_RADIUS = 128"

definition N_SEARCH_RADIUS :: rat where
  "N_SEARCH_RADIUS = 16"

definition ENTITY_DECIMAL_OFFSET :: vec3 where
  "ENTITY_DECIMAL_OFFSET = \<lparr>vx = 1 / 2, vy = 0, vz = 1 / 2\<rparr>"

definition vec3 :: "rat \<Rightarrow> rat \<Rightarrow> rat \<Rightarrow> vec3" where
  "vec3 a b c = \<lparr>vx = a, vy = b, vz = c\<rparr>"

definition copyVec3 :: "vec3 \<Rightarrow> vec3" where
  "copyVec3 v = \<lparr>vx = vx v, vy = vy v, vz = vz v\<rparr>"

definition addVec3 :: "vec3 \<Rightarrow> vec3 \<Rightarrow> vec3" where
  "addVec3 v1 v2 = \<lparr>vx = vx v1 + vx v2, vy = vy v1 + vy v2, vz = vz v1 + vz v2\<rparr>"

definition Math_floor :: "rat \<Rightarrow> rat" where
  "Math_floor a = of_int \<lfloor>a\<rfloor>"

definition floorVec3 :: "vec3 \<Rightarrow> vec3" where
  "floorVec3 v = \<lparr>vx = Math_floor (vx v), vy = Math_floor (vy v), vz = Math_floor (vz v)\<rparr>"

definition scaleVec3XZ :: "vec3 \<Rightarrow> rat \<Rightarrow> vec3" where
  "scaleVec3XZ v scale = \<lparr>vx = vx v * scale, vy = vy v, vz = vz v * scale\<rparr>"

definition distSq :: "vec3 \<Rightarrow> vec3 \<Rightarrow> rat" where
  "distSq p1 p2 =
     (let dx = vx p1 - vx p2; dy = vy p1 - vy p2; dz = vz p1 - vz p2
      in dx * dx + dy * dy + dz * dz)"

definition getCoordScale :: "dimension \<Rightarrow> rat" where
  "getCoordScale destinationDimension =
     (if destinationDimension = N_DIM then O_SCALE else N_SCALE)"

definition getSearchRadius :: "dimension \<Rightarrow> rat" where
  "getSearchRadius d = (if d = N_DIM then N_SEARCH_RADIUS else O_SEARCH_RADIUS)"

definition convertToOverworld :: "vec3 \<Rightarrow> dimension \<Rightarrow> vec3" where
  "convertToOverworld p sourceDimension =
     (if sourceDimension = O_DIM then copyVec3 p else scaleVec3XZ p N_SCALE)"

definition getEntityTestPositions :: "vec3 \<Rightarrow> facing \<Rightarrow> rat \<Rightarrow> vec3 list" where
  "getEntityTestPositions portalPosInt fc entityWidth =
     (let center = addVec3 portalPosInt ENTITY_DECIMAL_OFFSET;
          halfWidth = entityWidth / 2
      in if fc = FaceX
         then [center,
               \<lparr>vx = vx center, vy = vy center, vz = vz center + halfWidth\<rparr>,
               \<lparr>vx = vx center, vy = vy center, vz = vz center - halfWidth\<rparr>]
         else [center,
               \<lparr>vx = vx center + halfWidth, vy = vy center, vz = vz center\<rparr>,
               \<lparr>vx = vx center - halfWidth, vy = vy center, vz = vz center\<rparr>])"

definition randomInt :: "rat \<Rightarrow> rat \<Rightarrow> rat \<Rightarrow> rat" where
  \<comment> \<open>the first argument is the value \<^verbatim>\<open>Math.random()\<close> returned\<close>
  "randomInt r lo hi = Math_floor (r * (hi - lo + 1)) + lo"

section \<open>The problem and the state\<close>

datatype ctype = INC | EXC

record constraint =
  portalName :: string
  ctype :: ctype
  cmin :: vec3
  cmax :: vec3

record constraints =
  inclusive :: "constraint list"
  exclusive :: "constraint list"

record portal =
  pname :: string
  dim :: dimension
  face :: facing
  pos :: vec3
  constraints :: constraints
  outLinks :: "string list"

record link =
  source :: string
  dest :: string

datatype optPair =
  PortalPair string string rat
| PositionPair string vec3 rat

text \<open>
  A JavaScript object used as a dictionary is an association list in the order its keys
  are enumerated (\<^verbatim>\<open>for ... in\<close>, \<^verbatim>\<open>Object.keys\<close>): the link check walks the
  state in that order, and the order decides which candidate wins a full tie. The keys of
  an object are distinct; an assignment to a new key appends it (\<open>AList.update\<close>), which
  is the order of enumeration for keys that are not array indices.
\<close>

record problem =
  entitySize :: rat
  portals :: "(string \<times> portal) list"
  positionConstraints :: "constraint list"
  desiredLinks :: "link list"
  optimizationPairs :: "optPair list"

type_synonym state = "(string \<times> vec3) list"

definition copyState :: "state \<Rightarrow> state" where
  "copyState st = map (\<lambda>(n, v). (n, copyVec3 v)) st"

section \<open>Constraint checking: the link predicate\<close>

definition inBox :: "vec3 \<Rightarrow> constraint \<Rightarrow> bool" where
  "inBox p c \<longleftrightarrow>
     vx p \<ge> vx (cmin c) \<and> vx p \<le> vx (cmax c) \<and>
     vy p \<ge> vy (cmin c) \<and> vy p \<le> vy (cmax c) \<and>
     vz p \<ge> vz (cmin c) \<and> vz p \<le> vz (cmax c)"

definition satisfiesPositionConstraints :: "portal \<Rightarrow> vec3 \<Rightarrow> bool" where
  "satisfiesPositionConstraints pt p \<longleftrightarrow>
     (if \<not> list_ex (inBox p) (inclusive (constraints pt)) then False
      else \<not> list_ex (inBox p) (exclusive (constraints pt)))"

text \<open>Step 6 of \<^verbatim>\<open>checkActualLink\<close>: the portals of the destination dimension inside
  the square search area around \<open>Bd\<close>, in the order of the state's keys.\<close>

fun potentialTargets ::
  "problem \<Rightarrow> dimension \<Rightarrow> rat \<Rightarrow> vec3 \<Rightarrow> state \<Rightarrow> (string \<times> vec3) list option" where
  "potentialTargets p destDim searchRadius Bd [] = Some []"
| "potentialTargets p destDim searchRadius Bd ((n, C) # rest) =
     (case map_of (portals p) n of
        None \<Rightarrow> None
      | Some potentialPortal \<Rightarrow>
          (case potentialTargets p destDim searchRadius Bd rest of
             None \<Rightarrow> None
           | Some ts \<Rightarrow>
               Some (if dim potentialPortal \<noteq> destDim then ts
                     else if \<bar>vx C - vx Bd\<bar> \<le> searchRadius \<and> \<bar>vz C - vz Bd\<bar> \<le> searchRadius
                          then (n, C) # ts
                          else ts)))"

text \<open>Steps 7 and 8: the running minimum \<open>(closestPortalName, minDistanceSq, minY)\<close>.\<close>

fun closestLoop ::
  "vec3 \<Rightarrow> (string \<times> vec3) list \<Rightarrow> string option \<times> jsnum \<times> jsnum \<Rightarrow>
   string option \<times> jsnum \<times> jsnum" where
  "closestLoop Bd [] acc = acc"
| "closestLoop Bd ((n, C) # rest) (closestPortalName, minDistanceSq, minY) =
     (let distSqVal = distSq Bd C
      in if num_lt distSqVal minDistanceSq
         then closestLoop Bd rest (Some n, Num distSqVal, Num (vy C))
         else if num_eq distSqVal minDistanceSq
              then (if num_lt (vy C) minY
                    then closestLoop Bd rest (Some n, minDistanceSq, Num (vy C))
                    else closestLoop Bd rest (closestPortalName, minDistanceSq, minY))
              else closestLoop Bd rest (closestPortalName, minDistanceSq, minY))"

definition closestPortal :: "vec3 \<Rightarrow> (string \<times> vec3) list \<Rightarrow> string option" where
  "closestPortal Bd ts = fst (closestLoop Bd ts (None, Infinity, Infinity))"

fun checkProbes ::
  "problem \<Rightarrow> dimension \<Rightarrow> rat \<Rightarrow> rat \<Rightarrow> string \<Rightarrow> state \<Rightarrow> vec3 list \<Rightarrow> bool option" where
  "checkProbes p destDim coordScale searchRadius expectedDest st [] = Some True"
| "checkProbes p destDim coordScale searchRadius expectedDest st (entityPos # rest) =
     (let Pd = scaleVec3XZ entityPos coordScale;
          Bd = floorVec3 Pd
      in case potentialTargets p destDim searchRadius Bd st of
           None \<Rightarrow> None
         | Some ts \<Rightarrow>
             if ts = [] then Some False
             else if closestPortal Bd ts \<noteq> Some expectedDest then Some False
             else checkProbes p destDim coordScale searchRadius expectedDest st rest)"

definition checkActualLink :: "problem \<Rightarrow> string \<Rightarrow> string \<Rightarrow> state \<Rightarrow> bool option" where
  "checkActualLink p sourcePortalName expectedDestPortalName currentState =
     (case map_of (portals p) sourcePortalName of
        None \<Rightarrow> None
      | Some sourcePortal \<Rightarrow>
          (case map_of currentState sourcePortalName of
             None \<Rightarrow> None
           | Some sourcePos \<Rightarrow>
               (case map_of (portals p) expectedDestPortalName of
                  None \<Rightarrow> None
                | Some destPortal \<Rightarrow>
                    (let destDim = dim destPortal;
                         testPositions =
                           getEntityTestPositions sourcePos (face sourcePortal) (entitySize p);
                         coordScale = getCoordScale destDim;
                         searchRadius = getSearchRadius destDim
                     in checkProbes p destDim coordScale searchRadius
                          expectedDestPortalName currentState testPositions))))"

section \<open>The cost function\<close>

fun countLinkViolations :: "problem \<Rightarrow> link list \<Rightarrow> state \<Rightarrow> nat option" where
  "countLinkViolations p [] st = Some 0"
| "countLinkViolations p (l # ls) st =
     (case checkActualLink p (source l) (dest l) st of
        None \<Rightarrow> None
      | Some ok \<Rightarrow>
          (case countLinkViolations p ls st of
             None \<Rightarrow> None
           | Some k \<Rightarrow> Some (if \<not> ok then k + 1 else k)))"

fun countPosViolations :: "problem \<Rightarrow> state \<Rightarrow> nat option" where
  "countPosViolations p [] = Some 0"
| "countPosViolations p ((n, v) # rest) =
     (case map_of (portals p) n of
        None \<Rightarrow> None
      | Some pt \<Rightarrow>
          (case countPosViolations p rest of
             None \<Rightarrow> None
           | Some k \<Rightarrow> Some (if \<not> satisfiesPositionConstraints pt v then k + 1 else k)))"

text \<open>\<^verbatim>\<open>currentPortalData\<close>: every portal of the problem with \<^verbatim>\<open>pos: state[name]\<close>,
  which is \<^verbatim>\<open>undefined\<close> (\<open>None\<close>) when the state has no such key.\<close>

definition portalData :: "problem \<Rightarrow> state \<Rightarrow> (string \<times> portal \<times> vec3 option) list" where
  "portalData p st = map (\<lambda>(n, pt). (n, pt, map_of st n)) (portals p)"

definition calculateOptimizationDistanceSq ::
  "string \<Rightarrow> string \<Rightarrow> (string \<times> portal \<times> vec3 option) list \<Rightarrow> rat option" where
  "calculateOptimizationDistanceSq n1 n2 pd =
     (case map_of pd n1 of
        None \<Rightarrow> None
      | Some (pt1, pos1o) \<Rightarrow>
          (case map_of pd n2 of
             None \<Rightarrow> None
           | Some (pt2, pos2o) \<Rightarrow>
               (case pos1o of
                  None \<Rightarrow> None
                | Some pos1 \<Rightarrow>
                    (case pos2o of
                       None \<Rightarrow> None
                     | Some pos2 \<Rightarrow>
                         Some (distSq (convertToOverworld pos1 (dim pt1))
                                 (convertToOverworld pos2 (dim pt2)))))))"

definition calculateOptimizationDistancePosSq ::
  "string \<Rightarrow> vec3 \<Rightarrow> (string \<times> portal \<times> vec3 option) list \<Rightarrow> rat option" where
  "calculateOptimizationDistancePosSq n1 targetPosO pd =
     (case map_of pd n1 of
        None \<Rightarrow> None
      | Some (pt1, pos1o) \<Rightarrow>
          (case pos1o of
             None \<Rightarrow> None
           | Some pos1 \<Rightarrow> Some (distSq (convertToOverworld pos1 (dim pt1)) targetPosO)))"

fun pairDistSq :: "optPair \<Rightarrow> (string \<times> portal \<times> vec3 option) list \<Rightarrow> rat option" where
  "pairDistSq (PortalPair p1 p2 w) pd = calculateOptimizationDistanceSq p1 p2 pd"
| "pairDistSq (PositionPair p1 p2 w) pd = calculateOptimizationDistancePosSq p1 p2 pd"

fun pairWeight :: "optPair \<Rightarrow> rat" where
  "pairWeight (PortalPair p1 p2 w) = w"
| "pairWeight (PositionPair p1 p2 w) = w"

fun totalWeightedOptimizationDistanceSq ::
  "optPair list \<Rightarrow> (string \<times> portal \<times> vec3 option) list \<Rightarrow> rat \<Rightarrow> rat option" where
  "totalWeightedOptimizationDistanceSq [] pd m = Some 0"
| "totalWeightedOptimizationDistanceSq (pair # rest) pd m =
     (case pairDistSq pair pd of
        None \<Rightarrow> None
      | Some d \<Rightarrow>
          (case totalWeightedOptimizationDistanceSq rest pd m of
             None \<Rightarrow> None
           | Some t \<Rightarrow> Some (d * pairWeight pair * m + t)))"

text \<open>
  \<^verbatim>\<open>calculateCost(state, optimizationWeightMultiplier)\<close>. The two fields
  \<^verbatim>\<open>lastLinkViolations\<close> and \<^verbatim>\<open>lastPosViolations\<close> it stores are read nowhere in
  the solver and are the values of \<open>countLinkViolations\<close> and \<open>countPosViolations\<close>.
\<close>

definition calculateCost :: "problem \<Rightarrow> state \<Rightarrow> rat \<Rightarrow> rat option" where
  "calculateCost p st optimizationWeightMultiplier =
     (let linkPenaltyFactor = (if optimizationWeightMultiplier > 0 then 10000000000 else 1)
      in case countLinkViolations p (desiredLinks p) st of
           None \<Rightarrow> None
         | Some linkViolations \<Rightarrow>
             (case countPosViolations p st of
                None \<Rightarrow> None
              | Some posViolations \<Rightarrow>
                  (let cost = of_nat linkViolations * linkPenaltyFactor
                              + of_nat posViolations * 10000000
                   in if optimizationWeightMultiplier > 0
                      then (case totalWeightedOptimizationDistanceSq (optimizationPairs p)
                                   (portalData p st) optimizationWeightMultiplier of
                              None \<Rightarrow> None
                            | Some t \<Rightarrow> Some (cost + t))
                      else Some cost)))"

section \<open>Randomness, initialization and neighbor generation\<close>

text \<open>
  \<^verbatim>\<open>Math.random()\<close> is an explicit supply: the infinite sequence of the values it will
  return. A call takes the head and leaves the tail. The values of the real function lie
  in \<open>[0, 1)\<close>; theorems that need it assume \<open>unitRng\<close>.
\<close>

type_synonym rng = "nat \<Rightarrow> rat"

definition Math_random :: "rng \<Rightarrow> rat \<times> rng" where
  "Math_random g = (g 0, \<lambda>n. g (Suc n))"

definition constRng :: "rat \<Rightarrow> rng" where
  "constRng c = (\<lambda>n. c)"

fun prefixRng :: "rat list \<Rightarrow> rng \<Rightarrow> rng" where
  "prefixRng [] g = g"
| "prefixRng (a # as) g = (\<lambda>n. case n of 0 \<Rightarrow> a | Suc m \<Rightarrow> prefixRng as g m)"

definition unitRng :: "rng \<Rightarrow> bool" where
  "unitRng g \<longleftrightarrow> (\<forall>n. 0 \<le> g n \<and> g n < 1)"

text \<open>\<^verbatim>\<open>arr[i]\<close> for a number \<open>i\<close>: \<^verbatim>\<open>undefined\<close> unless \<open>i\<close> is an index of the array.\<close>

definition jsIndex :: "'a list \<Rightarrow> rat \<Rightarrow> 'a option" where
  "jsIndex xs i =
     (if 0 \<le> i \<and> of_int \<lfloor>i\<rfloor> = i \<and> nat \<lfloor>i\<rfloor> < length xs then Some (xs ! nat \<lfloor>i\<rfloor>) else None)"

definition randomPosIn :: "constraint \<Rightarrow> rng \<Rightarrow> vec3 \<times> rng" where
  "randomPosIn c g =
     (let (r1, g1) = Math_random g;
          (r2, g2) = Math_random g1;
          (r3, g3) = Math_random g2
      in (vec3 (randomInt r1 (vx (cmin c)) (vx (cmax c)))
               (randomInt r2 (vy (cmin c)) (vy (cmax c)))
               (randomInt r3 (vz (cmin c)) (vz (cmax c))), g3))"

fun initPosition :: "portal \<Rightarrow> nat \<Rightarrow> rng \<Rightarrow> (vec3 option \<times> rng) option" where
  "initPosition pt 0 g = Some (None, g)"
| "initPosition pt (Suc k) g =
     (let (r0, g0) = Math_random g;
          inc = inclusive (constraints pt)
      in case jsIndex inc (randomInt r0 0 (of_nat (length inc) - 1)) of
           None \<Rightarrow> None
         | Some incConstraint \<Rightarrow>
             (let (p, g') = randomPosIn incConstraint g0
              in if satisfiesPositionConstraints pt p then Some (Some p, g')
                 else initPosition pt k g'))"

fun initializeLoop :: "problem \<Rightarrow> string list \<Rightarrow> state \<Rightarrow> rng \<Rightarrow> (state option \<times> rng) option" where
  "initializeLoop p [] initialState g = Some (Some initialState, g)"
| "initializeLoop p (n # ns) initialState g =
     (case map_of (portals p) n of
        None \<Rightarrow> None
      | Some pt \<Rightarrow>
          (case initPosition pt 100 g of
             None \<Rightarrow> None
           | Some (None, g') \<Rightarrow> Some (None, g')
           | Some (Some p0, g') \<Rightarrow> initializeLoop p ns (AList.update n p0 initialState) g'))"

definition portalNames :: "problem \<Rightarrow> string list" where
  "portalNames p = map fst (portals p)"

text \<open>\<^verbatim>\<open>initializeState()\<close>: \<open>Some st\<close> is \<^verbatim>\<open>true\<close> with \<^verbatim>\<open>this.currentState = st\<close>,
  \<open>None\<close> is \<^verbatim>\<open>false\<close> with \<^verbatim>\<open>this.currentState\<close> untouched.\<close>

definition initializeState :: "problem \<Rightarrow> rng \<Rightarrow> (state option \<times> rng) option" where
  "initializeState p g = initializeLoop p (portalNames p) [] g"

definition stage1LargeJumpChance :: rat where
  "stage1LargeJumpChance = 2 / 10"

fun largeJumpLoop :: "portal \<Rightarrow> nat \<Rightarrow> rng \<Rightarrow> (vec3 option \<times> rng) option" where
  "largeJumpLoop pt 0 g = Some (None, g)"
| "largeJumpLoop pt (Suc k) g =
     (let inc = inclusive (constraints pt)
      in if length inc = 0 then Some (None, g)
         else (let (r0, g0) = Math_random g
               in case jsIndex inc (randomInt r0 0 (of_nat (length inc) - 1)) of
                    None \<Rightarrow> None
                  | Some incConstraint \<Rightarrow>
                      (let (randomPos, g') = randomPosIn incConstraint g0;
                           isInExclusive = list_ex (inBox randomPos) (exclusive (constraints pt))
                       in if \<not> isInExclusive then Some (Some randomPos, g')
                          else largeJumpLoop pt k g')))"

definition moveRange :: rat where
  "moveRange = 3"

definition randomMove :: "rng \<Rightarrow> vec3 \<times> rng" where
  "randomMove g =
     (let (r1, g1) = Math_random g;
          (r2, g2) = Math_random g1;
          (r3, g3) = Math_random g2
      in (vec3 (randomInt r1 (- moveRange) moveRange)
               (randomInt r2 (- moveRange) moveRange)
               (randomInt r3 (- moveRange) moveRange), g3))"

fun smallMoveLoop ::
  "portal option \<Rightarrow> vec3 option \<Rightarrow> nat \<Rightarrow> rng \<Rightarrow> (vec3 option \<times> rng) option" where
  "smallMoveLoop portalO currentPosO 0 g = Some (None, g)"
| "smallMoveLoop portalO currentPosO (Suc k) g =
     (let (move, g') = randomMove g
      in if vx move = 0 \<and> vy move = 0 \<and> vz move = 0
         then smallMoveLoop portalO currentPosO k g'
         else (case currentPosO of
                 None \<Rightarrow> None
               | Some currentPos \<Rightarrow>
                   (case portalO of
                      None \<Rightarrow> None
                    | Some pt \<Rightarrow>
                        (let nextPos = addVec3 currentPos move;
                             isInInclusive = list_ex (inBox nextPos) (inclusive (constraints pt))
                         in if \<not> isInInclusive then smallMoveLoop portalO currentPosO k g'
                            else if list_ex (inBox nextPos) (exclusive (constraints pt))
                                 then smallMoveLoop portalO currentPosO k g'
                                 else Some (Some nextPos, g')))))"

text \<open>
  \<^verbatim>\<open>generateNeighbor(state, isStage1)\<close>. The outer \<open>None\<close> is a thrown
  \<^verbatim>\<open>TypeError\<close>; \<open>Some (None, g)\<close> is the return value \<^verbatim>\<open>null\<close>.
\<close>

definition generateNeighbor :: "problem \<Rightarrow> state \<Rightarrow> bool \<Rightarrow> rng \<Rightarrow> (state option \<times> rng) option" where
  "generateNeighbor p st isStage1 g =
     (let newState = copyState st;
          (r0, g0) = Math_random g;
          portalNameO = jsIndex (portalNames p)
                          (randomInt r0 0 (of_nat (length (portalNames p)) - 1));
          portalO = (case portalNameO of None \<Rightarrow> None | Some n \<Rightarrow> map_of (portals p) n);
          currentPosO = (case portalNameO of None \<Rightarrow> None | Some n \<Rightarrow> map_of newState n);
          jump =
            (if isStage1
             then (let (r1, g1) = Math_random g0
                   in if r1 < stage1LargeJumpChance
                      then (case portalO of
                              None \<Rightarrow> None
                            | Some pt \<Rightarrow> largeJumpLoop pt 10 g1)
                      else Some (None, g1))
             else Some (None, g0))
      in case jump of
           None \<Rightarrow> None
         | Some (Some randomPos, g2) \<Rightarrow>
             (case portalNameO of
                None \<Rightarrow> None
              | Some n \<Rightarrow> Some (Some (AList.update n randomPos newState), g2))
         | Some (None, g2) \<Rightarrow>
             (case smallMoveLoop portalO currentPosO 50 g2 of
                None \<Rightarrow> None
              | Some (None, g3) \<Rightarrow> Some (None, g3)
              | Some (Some nextPos, g3) \<Rightarrow>
                  (case portalNameO of
                     None \<Rightarrow> None
                   | Some n \<Rightarrow> Some (Some (AList.update n nextPos newState), g3))))"

section \<open>Verification of a state\<close>

text \<open>
  Numbers inside messages are violation counts. \<open>numToString\<close> renders the integer part
  of a number in decimal, which is what JavaScript prints for the integers below
  \<open>10\<^sup>2\<^sup>1\<close>.
\<close>

function showNat :: "nat \<Rightarrow> string" where
  "showNat n = (if n < 10 then [''0123456789'' ! n]
                else showNat (n div 10) @ [''0123456789'' ! (n mod 10)])"
  by pat_completeness auto
termination
  by (relation "measure id") auto

definition numToString :: "rat \<Rightarrow> string" where
  "numToString q = (if q < 0 then ''-'' else []) @ showNat (nat \<lfloor>\<bar>q\<bar>\<rfloor>)"

fun joinWith :: "string \<Rightarrow> string list \<Rightarrow> string" where
  "joinWith sep [] = []"
| "joinWith sep [a] = a"
| "joinWith sep (a # b # rest) = a @ sep @ joinWith sep (b # rest)"

fun violatedPositionsOf :: "problem \<Rightarrow> state \<Rightarrow> string list option" where
  "violatedPositionsOf p [] = Some []"
| "violatedPositionsOf p ((n, v) # rest) =
     (case map_of (portals p) n of
        None \<Rightarrow> None
      | Some pt \<Rightarrow>
          (case violatedPositionsOf p rest of
             None \<Rightarrow> None
           | Some ns \<Rightarrow> Some (if \<not> satisfiesPositionConstraints pt v then n # ns else ns)))"

fun violatedLinksOf :: "problem \<Rightarrow> link list \<Rightarrow> state \<Rightarrow> string list option" where
  "violatedLinksOf p [] st = Some []"
| "violatedLinksOf p (l # ls) st =
     (case checkActualLink p (source l) (dest l) st of
        None \<Rightarrow> None
      | Some ok \<Rightarrow>
          (case violatedLinksOf p ls st of
             None \<Rightarrow> None
           | Some vs \<Rightarrow> Some (if \<not> ok then (source l @ '' -> '' @ dest l) # vs else vs)))"

text \<open>The per-goal report: the squared distance and the weight of every goal. The
  source also prints the square root and rounds all three to fixed decimals.\<close>

fun optimizationDistancesOf ::
  "optPair list \<Rightarrow> (string \<times> portal \<times> vec3 option) list \<Rightarrow> (rat \<times> rat) list option" where
  "optimizationDistancesOf [] pd = Some []"
| "optimizationDistancesOf (pair # rest) pd =
     (case pairDistSq pair pd of
        None \<Rightarrow> None
      | Some d \<Rightarrow>
          (case optimizationDistancesOf rest pd of
             None \<Rightarrow> None
           | Some ds \<Rightarrow> Some ((d, pairWeight pair) # ds)))"

record linkDistance =
  ldFrom :: string
  ldTo :: string
  ldBd :: vec3
  ldDestPos :: vec3
  ldDistSq :: rat

fun linkDistancesInner ::
  "problem \<Rightarrow> nat \<Rightarrow> string \<Rightarrow> vec3 \<Rightarrow> (nat \<times> string \<times> vec3) list \<Rightarrow> linkDistance list option" where
  "linkDistancesInner p i p1Name pos1 [] = Some []"
| "linkDistancesInner p i p1Name pos1 ((j, p2Name, pos2) # rest) =
     (if i = j then linkDistancesInner p i p1Name pos1 rest
      else (case map_of (portals p) p1Name of
              None \<Rightarrow> None
            | Some portal1 \<Rightarrow>
                (case map_of (portals p) p2Name of
                   None \<Rightarrow> None
                 | Some portal2 \<Rightarrow>
                     (if dim portal1 = dim portal2 then linkDistancesInner p i p1Name pos1 rest
                      else (case linkDistancesInner p i p1Name pos1 rest of
                              None \<Rightarrow> None
                            | Some ds \<Rightarrow>
                                (let entityPosCenter = addVec3 pos1 ENTITY_DECIMAL_OFFSET;
                                     coordScale = getCoordScale (dim portal2);
                                     Pd = scaleVec3XZ entityPosCenter coordScale;
                                     Bd = floorVec3 Pd
                                 in Some (\<lparr>ldFrom = p1Name, ldTo = p2Name, ldBd = Bd,
                                            ldDestPos = pos2, ldDistSq = distSq Bd pos2\<rparr> # ds)))))))"

fun linkDistancesOuter ::
  "problem \<Rightarrow> (nat \<times> string \<times> vec3) list \<Rightarrow> (nat \<times> string \<times> vec3) list \<Rightarrow>
   linkDistance list option" where
  "linkDistancesOuter p allp [] = Some []"
| "linkDistancesOuter p allp ((i, p1Name, pos1) # rest) =
     (case linkDistancesInner p i p1Name pos1 allp of
        None \<Rightarrow> None
      | Some ds \<Rightarrow>
          (case linkDistancesOuter p allp rest of
             None \<Rightarrow> None
           | Some es \<Rightarrow> Some (ds @ es)))"

definition calculateAllLinkDistances :: "problem \<Rightarrow> state \<Rightarrow> linkDistance list option" where
  "calculateAllLinkDistances p st =
     (let indexed = zip [0..<length st] st
      in linkDistancesOuter p indexed indexed)"

record result =
  solution :: "state option"
  success :: bool
  message :: string
  violatedLinks :: "string list"
  violatedPositions :: "string list"
  optimizationDistances :: "(rat \<times> rat) list"
  linkDistances :: "linkDistance list"

definition verifySolution :: "problem \<Rightarrow> state \<Rightarrow> result option" where
  "verifySolution p st =
     (case violatedPositionsOf p st of
        None \<Rightarrow> None
      | Some vps \<Rightarrow>
          (case violatedLinksOf p (desiredLinks p) st of
             None \<Rightarrow> None
           | Some vls \<Rightarrow>
               (case optimizationDistancesOf (optimizationPairs p) (portalData p st) of
                  None \<Rightarrow> None
                | Some ods \<Rightarrow>
                    (case calculateAllLinkDistances p st of
                       None \<Rightarrow> None
                     | Some lds \<Rightarrow>
                         (let ok = (vps = [] \<and> vls = []);
                              msg = (if ok then ''Solution found.''
                                     else ''Constraints violated. Best attempt shown.''
                                          @ (if length vps > 0
                                             then '' Portals violating position constraints: ''
                                                  @ joinWith '', '' vps @ ''.''
                                             else [])
                                          @ (if length vls > 0
                                             then '' Desired links not satisfied: ''
                                                  @ joinWith ''; '' vls @ ''.''
                                             else []))
                          in Some \<lparr>solution = Some st, success = ok, message = msg,
                                    violatedLinks = vls, violatedPositions = vps,
                                    optimizationDistances = ods, linkDistances = lds\<rparr>)))))"

section \<open>The two-stage annealer\<close>

text \<open>
  The tunable fields the constructor of \<^verbatim>\<open>PortalSolver\<close> sets. Status and progress
  callbacks and the periodic \<^verbatim>\<open>await\<close> that yields to the browser carry no data
  into the search and are left out, as is the final copy of the positions into
  \<^verbatim>\<open>problem.portals[name].pos\<close> for rendering.
\<close>

definition initialTemperature :: rat where
  "initialTemperature = 100000"

definition coolingRate :: rat where
  "coolingRate = 995 / 1000"

definition absoluteTemperature :: rat where
  "absoluteTemperature = 1 / 100"

definition maxIterations :: nat where
  "maxIterations = 100000"

definition iterationsPerUpdate :: nat where
  "iterationsPerUpdate = 5000"

definition stage1MaxAttempts :: nat where
  "stage1MaxAttempts = 3"

definition stage1CoolingRate :: rat where
  "stage1CoolingRate = 997 / 1000"

definition stage1TempMultiplier :: rat where
  "stage1TempMultiplier = 15 / 10"

definition stage1AcceptWorseViolationProb :: rat where
  "stage1AcceptWorseViolationProb = 1 / 10"

definition stage1Iterations :: nat where
  "stage1Iterations = nat \<lfloor>of_nat maxIterations * (7 / 10 :: rat)\<rfloor>"

definition stage2Iterations :: nat where
  "stage2Iterations =
     (let n = maxIterations - nat \<lfloor>of_nat maxIterations * (7 / 10 :: rat)\<rfloor>
      in if n \<le> iterationsPerUpdate then nat \<lfloor>of_nat maxIterations * (3 / 10 :: rat)\<rfloor> else n)"

definition Math_exp :: "rat \<Rightarrow> real" where
  "Math_exp a = exp (of_rat a)"

record solver =
  currentState :: state

record stage1Vars = solver +
  bestViolationState :: state
  minViolationsFound :: rat

record s1 = stage1Vars +
  stage1CurrentState :: state
  stage1CurrentCost :: rat
  stage1Temp :: rat

record s2 = solver +
  currentFullCost :: rat
  minCost :: rat
  bestState :: state
  temperature :: rat

datatype loopExit = Next | FoundFeasible | Cooled

definition stage1Accept :: "rat \<Rightarrow> rat \<Rightarrow> rng \<Rightarrow> bool \<times> rng" where
  "stage1Accept deltaCost temp g =
     (if deltaCost < 0 then (True, g)
      else if deltaCost = 0
           then (let (r, g') = Math_random g
                 in (of_rat r < Math_exp (- deltaCost / temp), g'))
           else (let (r, g') = Math_random g
                 in (of_rat r < of_rat stage1AcceptWorseViolationProb
                                  * Math_exp (- deltaCost / temp), g')))"

text \<open>One iteration of the inner loop of Stage 1. \<open>Next\<close> goes on with the next
  iteration (also after \<^verbatim>\<open>continue\<close>); the other two exits are the two
  \<^verbatim>\<open>break\<close>s.\<close>

definition stage1Step :: "problem \<Rightarrow> s1 \<Rightarrow> rng \<Rightarrow> (s1 \<times> loopExit \<times> rng) option" where
  "stage1Step p s g =
     (case generateNeighbor p (stage1CurrentState s) True g of
        None \<Rightarrow> None
      | Some (None, g1) \<Rightarrow> Some (s, Next, g1)
      | Some (Some neighborState, g1) \<Rightarrow>
          (case calculateCost p neighborState 0 of
             None \<Rightarrow> None
           | Some neighborCost \<Rightarrow>
               (let deltaCost = neighborCost - stage1CurrentCost s;
                    (acceptMove, g2) = stage1Accept deltaCost (stage1Temp s) g1;
                    sA = (if acceptMove
                          then (let sM = s\<lparr>stage1CurrentState := neighborState,
                                            stage1CurrentCost := neighborCost\<rparr>
                                in if neighborCost < minViolationsFound sM
                                   then sM\<lparr>minViolationsFound := neighborCost,
                                           bestViolationState := copyState neighborState\<rparr>
                                   else sM)
                          else s)
                in if acceptMove \<and> neighborCost = 0 then Some (sA, FoundFeasible, g2)
                   else (let sC = sA\<lparr>stage1Temp := stage1Temp sA * stage1CoolingRate\<rparr>
                         in if stage1Temp sC < absoluteTemperature then Some (sC, Cooled, g2)
                            else Some (sC, Next, g2)))))"

fun stage1Loop :: "problem \<Rightarrow> nat \<Rightarrow> s1 \<Rightarrow> rng \<Rightarrow> (s1 \<times> bool \<times> rng) option" where
  "stage1Loop p 0 s g = Some (s, False, g)"
| "stage1Loop p (Suc n) s g =
     (case stage1Step p s g of
        None \<Rightarrow> None
      | Some (s', Next, g') \<Rightarrow> stage1Loop p n s' g'
      | Some (s', FoundFeasible, g') \<Rightarrow> Some (s', True, g')
      | Some (s', Cooled, g') \<Rightarrow> Some (s', False, g'))"

text \<open>The body of the attempt loop after the re-initialization. The second component
  of the result is \<^verbatim>\<open>feasibleState\<close> (\<open>None\<close> while \<^verbatim>\<open>feasibleFound\<close> is false).\<close>

definition runAttempt ::
  "problem \<Rightarrow> nat \<Rightarrow> stage1Vars \<Rightarrow> rng \<Rightarrow> (stage1Vars \<times> state option \<times> rng) option" where
  "runAttempt p attempt v g =
     (let st0 = copyState (currentState v)
      in case calculateCost p st0 0 of
           None \<Rightarrow> None
         | Some c \<Rightarrow>
             (let v1 = (if c < minViolationsFound v
                        then v\<lparr>minViolationsFound := c, bestViolationState := copyState st0\<rparr>
                        else v)
              in if c = 0 then Some (v1, Some st0, g)
                 else (case stage1Loop p stage1Iterations
                              \<lparr>currentState = currentState v1,
                               bestViolationState = bestViolationState v1,
                               minViolationsFound = minViolationsFound v1,
                               stage1CurrentState = st0,
                               stage1CurrentCost = c,
                               stage1Temp = initialTemperature * stage1TempMultiplier\<rparr> g of
                         None \<Rightarrow> None
                       | Some (s, feasibleFound, g') \<Rightarrow>
                           (let v2 = v1\<lparr>bestViolationState := bestViolationState s,
                                         minViolationsFound := minViolationsFound s\<rparr>
                            in if feasibleFound then Some (v2, Some (stage1CurrentState s), g')
                               else if attempt < stage1MaxAttempts
                                    then (case calculateCost p (stage1CurrentState s) 0 of
                                            None \<Rightarrow> None
                                          | Some cm \<Rightarrow>
                                              Some (if cm < minViolationsFound v2
                                                    then v2\<lparr>minViolationsFound := cm,
                                                            bestViolationState :=
                                                              copyState (stage1CurrentState s)\<rparr>
                                                    else v2, None, g'))
                                    else Some (v2, None, g')))))"

definition stage1Attempt ::
  "problem \<Rightarrow> nat \<Rightarrow> stage1Vars \<Rightarrow> rng \<Rightarrow> (stage1Vars \<times> state option \<times> rng) option" where
  "stage1Attempt p attempt v g =
     (if attempt > 1
      then (case initializeState p g of
              None \<Rightarrow> None
            | Some (None, g') \<Rightarrow> Some (v, None, g')
            | Some (Some st, g') \<Rightarrow>
                (case calculateCost p (copyState st) 0 of
                   None \<Rightarrow> None
                 | Some c \<Rightarrow>
                     runAttempt p attempt
                       (v\<lparr>currentState := st, bestViolationState := copyState st,
                          minViolationsFound := c\<rparr>) g'))
      else runAttempt p attempt v g)"

text \<open>The attempt loop: \<open>k\<close> attempts are left, the next one has number \<open>attempt\<close>.\<close>

fun stage1Attempts ::
  "problem \<Rightarrow> nat \<Rightarrow> nat \<Rightarrow> stage1Vars \<Rightarrow> rng \<Rightarrow> (stage1Vars \<times> state option \<times> rng) option" where
  "stage1Attempts p 0 attempt v g = Some (v, None, g)"
| "stage1Attempts p (Suc k) attempt v g =
     (case stage1Attempt p attempt v g of
        None \<Rightarrow> None
      | Some (v', Some feasibleState, g') \<Rightarrow> Some (v', Some feasibleState, g')
      | Some (v', None, g') \<Rightarrow> stage1Attempts p k (attempt + 1) v' g')"

definition stage2Accept :: "rat \<Rightarrow> rat \<Rightarrow> rng \<Rightarrow> bool \<times> rng" where
  "stage2Accept deltaCost temp g =
     (if deltaCost < 0 then (True, g)
      else (let (r, g') = Math_random g
            in (of_rat r < Math_exp (- deltaCost / temp), g')))"

definition stage2Step :: "problem \<Rightarrow> s2 \<Rightarrow> rng \<Rightarrow> (s2 \<times> loopExit \<times> rng) option" where
  "stage2Step p s g =
     (case generateNeighbor p (currentState s) False g of
        None \<Rightarrow> None
      | Some (None, g1) \<Rightarrow> Some (s, Next, g1)
      | Some (Some neighborState, g1) \<Rightarrow>
          (case calculateCost p neighborState 0 of
             None \<Rightarrow> None
           | Some neighborViolations \<Rightarrow>
               if neighborViolations > 0 then Some (s, Next, g1)
               else (case calculateCost p neighborState 1 of
                       None \<Rightarrow> None
                     | Some neighborFullCost \<Rightarrow>
                         (let deltaCost = neighborFullCost - currentFullCost s;
                              (acceptMove, g2) = stage2Accept deltaCost (temperature s) g1;
                              sA = (if acceptMove
                                    then (let sM = s\<lparr>currentState := neighborState,
                                                      currentFullCost := neighborFullCost\<rparr>
                                          in if currentFullCost sM < minCost sM
                                             then sM\<lparr>minCost := currentFullCost sM,
                                                     bestState := copyState (currentState sM)\<rparr>
                                             else sM)
                                    else s);
                              sC = sA\<lparr>temperature := temperature sA * coolingRate\<rparr>
                          in if temperature sC < absoluteTemperature then Some (sC, Cooled, g2)
                             else Some (sC, Next, g2)))))"

fun stage2Loop :: "problem \<Rightarrow> nat \<Rightarrow> s2 \<Rightarrow> rng \<Rightarrow> (s2 \<times> rng) option" where
  "stage2Loop p 0 s g = Some (s, g)"
| "stage2Loop p (Suc n) s g =
     (case stage2Step p s g of
        None \<Rightarrow> None
      | Some (s', Next, g') \<Rightarrow> stage2Loop p n s' g'
      | Some (s', ex, g') \<Rightarrow> Some (s', g'))"

text \<open>The finalization after Stage 2: verify the recorded best state, then the sanity
  check on its weight-0 cost.\<close>

definition finalizeResult :: "problem \<Rightarrow> state \<Rightarrow> result option" where
  "finalizeResult p best =
     (case verifySolution p best of
        None \<Rightarrow> None
      | Some finalResult \<Rightarrow>
          (case calculateCost p best 0 of
             None \<Rightarrow> None
           | Some finalViolations \<Rightarrow>
               Some (if finalViolations > 0
                     then finalResult\<lparr>success := False,
                            message := (if message finalResult = [] then ''Optimization finished.''
                                        else message finalResult)
                                       @ '' (Internal Error: Final state has ''
                                       @ numToString finalViolations @ '' violations)''\<rparr>
                     else if success finalResult
                          then finalResult\<lparr>message := ''Solution found and optimized.''\<rparr>
                          else finalResult)))"

definition initFailedResult :: result where
  "initFailedResult =
     \<lparr>solution = None, success = False,
      message = ''Initialization failed (position constraints).'',
      violatedLinks = [], violatedPositions = [], optimizationDistances = [],
      linkDistances = []\<rparr>"

definition stage1FailedResult :: "problem \<Rightarrow> stage1Vars \<Rightarrow> result option" where
  "stage1FailedResult p v =
     (case verifySolution p (bestViolationState v) of
        None \<Rightarrow> None
      | Some r \<Rightarrow>
          Some (r\<lparr>message := ''Stage 1 Failed: Could not find state satisfying all link constraints (min violations = ''
                             @ numToString (minViolationsFound v) @ ''). Best attempt shown.'',
                  success := False\<rparr>))"

definition stage1 :: "problem \<Rightarrow> state \<Rightarrow> rng \<Rightarrow> (stage1Vars \<times> state option \<times> rng) option" where
  "stage1 p st0 g =
     (case calculateCost p (copyState st0) 0 of
        None \<Rightarrow> None
      | Some c0 \<Rightarrow>
          stage1Attempts p stage1MaxAttempts 1
            \<lparr>currentState = st0, bestViolationState = copyState st0,
             minViolationsFound = c0\<rparr> g)"

definition stage2 :: "problem \<Rightarrow> state \<Rightarrow> rng \<Rightarrow> (s2 \<times> rng) option" where
  "stage2 p feasibleState g =
     (let cur = copyState feasibleState
      in case calculateCost p cur 1 of
           None \<Rightarrow> None
         | Some full \<Rightarrow>
             stage2Loop p stage2Iterations
               \<lparr>currentState = cur, currentFullCost = full, minCost = full,
                bestState = copyState cur, temperature = initialTemperature\<rparr> g)"

definition solve :: "problem \<Rightarrow> rng \<Rightarrow> (result \<times> rng) option" where
  "solve p g =
     (case initializeState p g of
        None \<Rightarrow> None
      | Some (None, g1) \<Rightarrow> Some (initFailedResult, g1)
      | Some (Some st0, g1) \<Rightarrow>
          (case stage1 p st0 g1 of
             None \<Rightarrow> None
           | Some (v, None, g2) \<Rightarrow>
               (case stage1FailedResult p v of
                  None \<Rightarrow> None
                | Some r \<Rightarrow> Some (r, g2))
           | Some (v, Some feasibleState, g2) \<Rightarrow>
               (case stage2 p feasibleState g2 of
                  None \<Rightarrow> None
                | Some (s, g3) \<Rightarrow>
                    (case finalizeResult p (bestState s) of
                       None \<Rightarrow> None
                     | Some r \<Rightarrow> Some (r, g3)))))"

section \<open>The parser of js/parser.js\<close>

text \<open>
  Strings are byte lists. \<open>isSpace\<close> is the ASCII part of what \<^verbatim>\<open>trim\<close> and
  \<^verbatim>\<open>\s\<close> match, \<open>toUpperCase\<close> maps the ASCII letters. The two number readers of
  the language, \<^verbatim>\<open>parseFloat\<close> and \<^verbatim>\<open>Number\<close>, are parameters of the parser:
  a function from the text to the number read, \<open>None\<close> for \<^verbatim>\<open>NaN\<close> (the infinite
  values, which both can return, have no counterpart among the rationals). An
  \<^verbatim>\<open>Error\<close> thrown with a message is a value of \<open>parseMsg\<close>, one constructor for
  each \<^verbatim>\<open>throw\<close> of the source, with the texts the message interpolates;
  \<open>TypeErrorMsg\<close> is a \<^verbatim>\<open>TypeError\<close> raised inside the \<^verbatim>\<open>try\<close> block.
\<close>

definition isSpace :: "char \<Rightarrow> bool" where
  "isSpace c \<longleftrightarrow> c \<in> set [CHR '' '', CHR 0x09, CHR 0x0A, CHR 0x0B, CHR 0x0C, CHR 0x0D]"

definition trim :: "string \<Rightarrow> string" where
  "trim s = rev (dropWhile isSpace (rev (dropWhile isSpace s)))"

definition upperChar :: "char \<Rightarrow> char" where
  "upperChar c =
     (let n = (of_char c :: nat) in if 97 \<le> n \<and> n \<le> 122 then char_of (n - 32) else c)"

definition toUpperCase :: "string \<Rightarrow> string" where
  "toUpperCase s = map upperChar s"

fun startsWith :: "string \<Rightarrow> string \<Rightarrow> bool" where
  "startsWith s [] = True"
| "startsWith [] (b # bs) = False"
| "startsWith (a # as) (b # bs) = (a = b \<and> startsWith as bs)"

text \<open>\<^verbatim>\<open>inputText.split('\n')\<close>, with the line being read in \<open>cur\<close>.\<close>

fun splitLines :: "string \<Rightarrow> string \<Rightarrow> string list" where
  "splitLines cur [] = [cur]"
| "splitLines cur (c # cs) =
     (if c = CHR 0x0A then cur # splitLines [] cs else splitLines (cur @ [c]) cs)"

text \<open>\<^verbatim>\<open>line.split(/\s+/)\<close>; \<open>gap\<close> says that the last byte was white space.\<close>

fun splitWs :: "bool \<Rightarrow> string \<Rightarrow> string \<Rightarrow> string list" where
  "splitWs gap cur [] = [cur]"
| "splitWs gap cur (c # cs) =
     (if isSpace c
      then (if gap then splitWs True cur cs else cur # splitWs True [] cs)
      else splitWs False (cur @ [c]) cs)"

datatype parseMsg =
  InvalidEntitySizeFormat
| EntitySizeMustBePositive
| InvalidPortalFormat
| DuplicatePortalName string
| InvalidDimension string string
| InvalidFacing string string
| InvalidPosFormat
| UnknownPortalInPos string
| InvalidPosType string
| InvalidCoordinatesInPos string
| MinAboveMax string
| InvalidLinkFormat
| UnknownSourcePortal string
| UnknownDestinationPortal string
| SameDimensionLink string string string string
| InvalidOptimizeFormat
| UnknownPortalInOptimize string
| InvalidWeightOptimize string string string
| InvalidOptimizePosFormat
| UnknownPortalInOptimizePos string
| InvalidCoordinatesInOptimizePos string
| InvalidWeightOptimizePos string string
| UnknownCommand string
| TypeErrorMsg

datatype parseError =
  LineError nat string parseMsg
| NoInclusiveConstraint string

text \<open>The parser's variables: the problem being built and the set \<^verbatim>\<open>portalNames\<close>.\<close>

type_synonym pstate = "problem \<times> string list"

definition emptyProblem :: problem where
  "emptyProblem =
     \<lparr>entitySize = 1, portals = [], positionConstraints = [], desiredLinks = [],
      optimizationPairs = []\<rparr>"

definition parseEntitySize ::
  "(string \<Rightarrow> rat option) \<Rightarrow> string list \<Rightarrow> pstate \<Rightarrow> parseMsg + pstate" where
  "parseEntitySize parseFloat parts ps =
     (if length parts \<noteq> 2 then Inl InvalidEntitySizeFormat
      else (case parseFloat (parts ! 1) of
              None \<Rightarrow> Inl InvalidEntitySizeFormat
            | Some v \<Rightarrow>
                if v \<le> 0 then Inl EntitySizeMustBePositive
                else Inr ((fst ps)\<lparr>entitySize := v\<rparr>, snd ps)))"

definition parsePortal :: "string list \<Rightarrow> pstate \<Rightarrow> parseMsg + pstate" where
  "parsePortal parts ps =
     (if length parts \<noteq> 4 then Inl InvalidPortalFormat
      else (let n = parts ! 1; d = parts ! 2; f = parts ! 3
            in if n \<in> set (snd ps) then Inl (DuplicatePortalName n)
               else if d \<noteq> ''O'' \<and> d \<noteq> ''N'' then Inl (InvalidDimension d n)
               else if f \<noteq> ''X'' \<and> f \<noteq> ''Z'' then Inl (InvalidFacing f n)
               else Inr ((fst ps)\<lparr>portals :=
                            AList.update n
                              \<lparr>pname = n,
                               dim = (if d = ''O'' then O_DIM else N_DIM),
                               face = (if f = ''X'' then FaceX else FaceZ),
                               pos = vec3 0 0 0,
                               constraints = \<lparr>inclusive = [], exclusive = []\<rparr>,
                               outLinks = []\<rparr>
                              (portals (fst ps))\<rparr>,
                         snd ps @ [n])))"

definition parsePos ::
  "(string \<Rightarrow> rat option) \<Rightarrow> string list \<Rightarrow> pstate \<Rightarrow> parseMsg + pstate" where
  "parsePos Number parts ps =
     (if length parts \<noteq> 9 then Inl InvalidPosFormat
      else (let portalNamePos = parts ! 1;
                tp = toUpperCase (parts ! 2);
                coords = map Number (drop 3 parts)
            in if portalNamePos \<notin> set (snd ps) then Inl (UnknownPortalInPos portalNamePos)
               else if tp \<noteq> ''INC'' \<and> tp \<noteq> ''EXC'' then Inl (InvalidPosType tp)
               else if list_ex (\<lambda>c. c = None) coords
                    then Inl (InvalidCoordinatesInPos portalNamePos)
               else (let mn = vec3 (the (coords ! 0)) (the (coords ! 1)) (the (coords ! 2));
                         mx = vec3 (the (coords ! 3)) (the (coords ! 4)) (the (coords ! 5))
                     in if vx mn > vx mx \<or> vy mn > vy mx \<or> vz mn > vz mx
                        then Inl (MinAboveMax portalNamePos)
                        else (let c = \<lparr>portalName = portalNamePos,
                                        ctype = (if tp = ''INC'' then INC else EXC),
                                        cmin = mn, cmax = mx\<rparr>;
                                  addTo = (\<lambda>pt. if tp = ''INC''
                                            then pt\<lparr>constraints := (constraints pt)
                                                   \<lparr>inclusive := inclusive (constraints pt) @ [c]\<rparr>\<rparr>
                                            else pt\<lparr>constraints := (constraints pt)
                                                   \<lparr>exclusive := exclusive (constraints pt) @ [c]\<rparr>\<rparr>)
                              in case map_of (portals (fst ps)) portalNamePos of
                                   None \<Rightarrow> Inl TypeErrorMsg
                                 | Some pt \<Rightarrow>
                                     Inr ((fst ps)\<lparr>positionConstraints :=
                                                    positionConstraints (fst ps) @ [c],
                                                  portals := AList.update portalNamePos (addTo pt)
                                                               (portals (fst ps))\<rparr>,
                                          snd ps)))))"

definition dimText :: "dimension \<Rightarrow> string" where
  "dimText d = (if d = O_DIM then ''O'' else ''N'')"

definition parseLink :: "string list \<Rightarrow> pstate \<Rightarrow> parseMsg + pstate" where
  "parseLink parts ps =
     (if length parts \<noteq> 3 then Inl InvalidLinkFormat
      else (let src = parts ! 1; dst = parts ! 2
            in if src \<notin> set (snd ps) then Inl (UnknownSourcePortal src)
               else if dst \<notin> set (snd ps) then Inl (UnknownDestinationPortal dst)
               else (case (map_of (portals (fst ps)) src, map_of (portals (fst ps)) dst) of
                       (Some sp, Some dp) \<Rightarrow>
                         if dim sp = dim dp
                         then Inl (SameDimensionLink src (dimText (dim sp)) dst (dimText (dim dp)))
                         else Inr ((fst ps)\<lparr>desiredLinks :=
                                        desiredLinks (fst ps) @ [\<lparr>source = src, dest = dst\<rparr>],
                                      portals :=
                                        AList.update src (sp\<lparr>outLinks := outLinks sp @ [dst]\<rparr>)
                                          (portals (fst ps))\<rparr>,
                                   snd ps)
                     | _ \<Rightarrow> Inl TypeErrorMsg)))"

definition parseOptimize ::
  "(string \<Rightarrow> rat option) \<Rightarrow> string list \<Rightarrow> pstate \<Rightarrow> parseMsg + pstate" where
  "parseOptimize parseFloat parts ps =
     (if length parts \<noteq> 3 \<and> length parts \<noteq> 4 then Inl InvalidOptimizeFormat
      else (let p1 = parts ! 1; p2 = parts ! 2
            in if p1 \<notin> set (snd ps) then Inl (UnknownPortalInOptimize p1)
               else if p2 \<notin> set (snd ps) then Inl (UnknownPortalInOptimize p2)
               else (let weightOpt = (if length parts = 4 then parseFloat (parts ! 3) else Some 1)
                     in case weightOpt of
                          None \<Rightarrow> Inl (InvalidWeightOptimize (parts ! 3) p1 p2)
                        | Some w \<Rightarrow>
                            if w < 0 then Inl (InvalidWeightOptimize (parts ! 3) p1 p2)
                            else Inr ((fst ps)\<lparr>optimizationPairs :=
                                           optimizationPairs (fst ps) @ [PortalPair p1 p2 w]\<rparr>,
                                      snd ps))))"

definition parseOptimizePos ::
  "(string \<Rightarrow> rat option) \<Rightarrow> (string \<Rightarrow> rat option) \<Rightarrow> string list \<Rightarrow> pstate \<Rightarrow>
   parseMsg + pstate" where
  "parseOptimizePos parseFloat Number parts ps =
     (if length parts \<noteq> 5 \<and> length parts \<noteq> 6 then Inl InvalidOptimizePosFormat
      else (let portalNameOpt = parts ! 1;
                targetCoords = map Number (drop 2 parts)
            in if portalNameOpt \<notin> set (snd ps) then Inl (UnknownPortalInOptimizePos portalNameOpt)
               else if list_ex (\<lambda>c. c = None) targetCoords
                    then Inl (InvalidCoordinatesInOptimizePos portalNameOpt)
               else (let weightPos = (if length parts = 6 then parseFloat (parts ! 5) else Some 1)
                     in case weightPos of
                          None \<Rightarrow> Inl (InvalidWeightOptimizePos (parts ! 5) portalNameOpt)
                        | Some w \<Rightarrow>
                            if w < 0 then Inl (InvalidWeightOptimizePos (parts ! 5) portalNameOpt)
                            else Inr ((fst ps)\<lparr>optimizationPairs :=
                                           optimizationPairs (fst ps) @
                                             [PositionPair portalNameOpt
                                                (vec3 (the (targetCoords ! 0))
                                                      (the (targetCoords ! 1))
                                                      (the (targetCoords ! 2))) w]\<rparr>,
                                      snd ps))))"

text \<open>The \<^verbatim>\<open>switch\<close> on the command, the first part of the line in upper case.\<close>

definition commandOf :: "string list \<Rightarrow> string" where
  "commandOf parts = toUpperCase (case parts of [] \<Rightarrow> [] | c # cs \<Rightarrow> c)"

definition parseDirective ::
  "(string \<Rightarrow> rat option) \<Rightarrow> (string \<Rightarrow> rat option) \<Rightarrow> string list \<Rightarrow> pstate \<Rightarrow>
   parseMsg + pstate" where
  "parseDirective parseFloat Number parts ps =
     (let command = commandOf parts
      in if command = ''ENTITY_SIZE'' then parseEntitySize parseFloat parts ps
         else if command = ''PORTAL'' then parsePortal parts ps
         else if command = ''POS'' then parsePos Number parts ps
         else if command = ''LINK'' then parseLink parts ps
         else if command = ''OPTIMIZE'' then parseOptimize parseFloat parts ps
         else if command = ''OPTIMIZE_POS'' then parseOptimizePos parseFloat Number parts ps
         else Inl (UnknownCommand command))"

definition skipped :: "string \<Rightarrow> bool" where
  "skipped line \<longleftrightarrow> startsWith line ''#'' \<or> line = []"

fun parseLines ::
  "(string \<Rightarrow> rat option) \<Rightarrow> (string \<Rightarrow> rat option) \<Rightarrow> nat \<Rightarrow> string list \<Rightarrow> pstate \<Rightarrow>
   parseError + pstate" where
  "parseLines parseFloat Number i [] ps = Inr ps"
| "parseLines parseFloat Number i (raw # rest) ps =
     (let line = trim raw
      in if skipped line then parseLines parseFloat Number (i + 1) rest ps
         else (case parseDirective parseFloat Number (splitWs False [] line) ps of
                 Inl msg \<Rightarrow> Inl (LineError (i + 1) line msg)
               | Inr ps' \<Rightarrow> parseLines parseFloat Number (i + 1) rest ps'))"

definition parseProblem ::
  "(string \<Rightarrow> rat option) \<Rightarrow> (string \<Rightarrow> rat option) \<Rightarrow> string \<Rightarrow> parseError + problem" where
  "parseProblem parseFloat Number inputText =
     (case parseLines parseFloat Number 0 (splitLines [] inputText) (emptyProblem, []) of
        Inl e \<Rightarrow> Inl e
      | Inr ps \<Rightarrow>
          (case find (\<lambda>(n, pt). length (inclusive (constraints pt)) = 0) (portals (fst ps)) of
             Some (n, pt) \<Rightarrow> Inl (NoInclusiveConstraint n)
           | None \<Rightarrow> Inr (fst ps)))"

text \<open>A reader of unsigned decimal integers, on which \<^verbatim>\<open>parseFloat\<close> and
  \<^verbatim>\<open>Number\<close> agree; it stands for both where a parse is evaluated.\<close>

definition digitValue :: "char \<Rightarrow> nat option" where
  "digitValue c =
     (let n = (of_char c :: nat) in if 48 \<le> n \<and> n \<le> 57 then Some (n - 48) else None)"

fun readDigits :: "nat \<Rightarrow> string \<Rightarrow> nat option" where
  "readDigits acc [] = Some acc"
| "readDigits acc (c # cs) =
     (case digitValue c of None \<Rightarrow> None | Some d \<Rightarrow> readDigits (acc * 10 + d) cs)"

definition readDecimal :: "string \<Rightarrow> rat option" where
  "readDecimal s = (if s = [] then None else map_option of_nat (readDigits 0 s))"

text \<open>The lines of a text that carry an \<^verbatim>\<open>ENTITY_SIZE\<close> directive.\<close>

definition isEntitySizeLine :: "string \<Rightarrow> bool" where
  "isEntitySizeLine raw \<longleftrightarrow>
     \<not> skipped (trim raw) \<and> commandOf (splitWs False [] (trim raw)) = ''ENTITY_SIZE''"

definition hasEntitySize :: "string \<Rightarrow> bool" where
  "hasEntitySize inputText \<longleftrightarrow> list_ex isEntitySizeLine (splitLines [] inputText)"

section \<open>Predicates and data of the statements\<close>

text \<open>Every key of the state is a portal of the problem: the link check reads
  \<^verbatim>\<open>this.problem.portals[name].dim\<close> for every key.\<close>

definition knownNames :: "problem \<Rightarrow> state \<Rightarrow> bool" where
  "knownNames p st \<longleftrightarrow> list_all (\<lambda>(n, C). map_of (portals p) n \<noteq> None) st"

text \<open>The candidates of a target block \<open>Bd\<close>, in the words of the specification: a portal
  of the destination dimension whose position lies within the search radius of that
  dimension on the two horizontal axes.\<close>

definition inSearchArea :: "problem \<Rightarrow> dimension \<Rightarrow> vec3 \<Rightarrow> string \<times> vec3 \<Rightarrow> bool" where
  "inSearchArea p destDim Bd nC \<longleftrightarrow>
     map_option dim (map_of (portals p) (fst nC)) = Some destDim \<and>
     \<bar>vx (snd nC) - vx Bd\<bar> \<le> getSearchRadius destDim \<and>
     \<bar>vz (snd nC) - vz Bd\<bar> \<le> getSearchRadius destDim"

text \<open>A problem with one portal in each dimension, linked in both directions, and the
  state that puts both at \<open>(0, 60, 0)\<close>.\<close>

definition box :: "string \<Rightarrow> ctype \<Rightarrow> rat \<Rightarrow> rat \<Rightarrow> rat \<Rightarrow> rat \<Rightarrow> rat \<Rightarrow> rat \<Rightarrow> constraint" where
  "box n t x0 y0 z0 x1 y1 z1 =
     \<lparr>portalName = n, ctype = t, cmin = vec3 x0 y0 z0, cmax = vec3 x1 y1 z1\<rparr>"

definition mkPortal :: "string \<Rightarrow> dimension \<Rightarrow> facing \<Rightarrow> constraint list \<Rightarrow> constraint list \<Rightarrow> portal" where
  "mkPortal n d f inc exc =
     \<lparr>pname = n, dim = d, face = f, pos = vec3 0 0 0,
      constraints = \<lparr>inclusive = inc, exclusive = exc\<rparr>, outLinks = []\<rparr>"

definition wideBox :: "string \<Rightarrow> constraint" where
  "wideBox n = box n INC (- 200) 0 (- 200) 200 128 200"

definition hubProblem :: problem where
  "hubProblem =
     \<lparr>entitySize = 1,
      portals = [(''A'', mkPortal ''A'' O_DIM FaceX [wideBox ''A''] []),
                 (''B'', mkPortal ''B'' N_DIM FaceX [wideBox ''B''] [])],
      positionConstraints = [wideBox ''A'', wideBox ''B''],
      desiredLinks = [\<lparr>source = ''A'', dest = ''B''\<rparr>, \<lparr>source = ''B'', dest = ''A''\<rparr>],
      optimizationPairs = [PortalPair ''A'' ''B'' 1]\<rparr>"

definition hubState :: state where
  "hubState = [(''A'', vec3 0 60 0), (''B'', vec3 0 60 0)]"

text \<open>The tie of the specification: three candidates at squared distance 25 from the
  origin, the third one lowest; and a fourth candidate at squared distance 51, lower than
  all of them and nearer on every single axis but y.\<close>

text \<open>Both links hold in \<open>edgeState\<close>, with \<open>B\<close> at the very edge of the search area
  of \<open>A\<close>; no link holds in \<open>farState\<close>.\<close>

definition edgeState :: state where
  "edgeState = [(''A'', vec3 4 60 0), (''B'', vec3 16 60 0)]"

definition farState :: state where
  "farState = [(''A'', vec3 4 60 0), (''B'', vec3 19 63 3)]"

definition tieCandidates :: "(string \<times> vec3) list" where
  "tieCandidates = [(''P'', vec3 5 0 0), (''Q'', vec3 0 0 5), (''R'', vec3 3 (- 4) 0),
                    (''S'', vec3 1 (- 7) 1)]"

text \<open>A text with comments, blank margins and lower-case directives, and no
  \<^verbatim>\<open>ENTITY_SIZE\<close> line.\<close>

definition sampleText :: string where
  "sampleText = ''# two portals'' @ [CHR 0x0A] @ ''PORTAL A O X'' @ [CHR 0x0A] @ ''portal B N Z''
     @ [CHR 0x0A] @ ''POS A INC 0 0 0 1 1 1'' @ [CHR 0x0A] @ ''  POS B inc 0 0 0 2 2 2  ''
     @ [CHR 0x0A] @ ''LINK A B'' @ [CHR 0x0A]"

text \<open>A box with integer bounds and \<open>min \<le> max\<close> on every axis. The parser checks
  \<open>min \<le> max\<close> only: it reads the bounds with \<^verbatim>\<open>Number\<close> and accepts fractions. A
  state that has a position for every portal of the problem.\<close>

definition isInteger :: "rat \<Rightarrow> bool" where
  "isInteger q \<longleftrightarrow> of_int \<lfloor>q\<rfloor> = q"

definition wfBox :: "constraint \<Rightarrow> bool" where
  "wfBox c \<longleftrightarrow>
     isInteger (vx (cmin c)) \<and> isInteger (vx (cmax c)) \<and> vx (cmin c) \<le> vx (cmax c) \<and>
     isInteger (vy (cmin c)) \<and> isInteger (vy (cmax c)) \<and> vy (cmin c) \<le> vy (cmax c) \<and>
     isInteger (vz (cmin c)) \<and> isInteger (vz (cmax c)) \<and> vz (cmin c) \<le> vz (cmax c)"

definition hasPositions :: "problem \<Rightarrow> state \<Rightarrow> bool" where
  "hasPositions p st \<longleftrightarrow> list_all (\<lambda>n. map_of st n \<noteq> None) (portalNames p)"

text \<open>\<open>A\<close> in the lowest corner of its box.\<close>

definition cornerState :: state where
  "cornerState = [(''A'', vec3 (- 200) 0 (- 200)), (''B'', vec3 16 60 0)]"

text \<open>A problem the parser accepts (\<^verbatim>\<open>POS A INC 0 0 0 0.5 0 0\<close>) whose only box has a
  fractional bound, and a supply under which the large jump draws x = 1 in that box.\<close>

definition fracPortal :: portal where
  "fracPortal = mkPortal ''A'' O_DIM FaceX [box ''A'' INC 0 0 0 (1 / 2) 0 0] []"

definition fracProblem :: problem where
  "fracProblem =
     \<lparr>entitySize = 1, portals = [(''A'', fracPortal)],
      positionConstraints = [box ''A'' INC 0 0 0 (1 / 2) 0 0],
      desiredLinks = [], optimizationPairs = []\<rparr>"

definition fracState :: state where
  "fracState = [(''A'', vec3 0 0 0)]"

definition fracMoved :: state where
  "fracMoved = [(''A'', vec3 1 0 0)]"

definition fracRng :: rng where
  "fracRng = prefixRng [1 / 10, 1 / 10, 1 / 10, 9 / 10] (constRng (1 / 10))"

text \<open>What a neighbor of \<open>st\<close> is: the state \<open>st\<close> with the position of one portal of the
  problem set to a value outside all exclusive boxes of that portal. The value satisfies
  the whole containment rule of the portal, unless large jumps are on and an inclusive
  box of the portal has a fractional bound; without large jumps it is a value other than
  the position the portal had.\<close>

definition neighborOf :: "problem \<Rightarrow> state \<Rightarrow> bool \<Rightarrow> state \<Rightarrow> bool" where
  "neighborOf p st isStage1 st' \<longleftrightarrow>
     (\<exists>n pt v. map_of (portals p) n = Some pt \<and> st' = AList.update n v st \<and>
        map_of st' n = Some v \<and> (\<forall>m. m \<noteq> n \<longrightarrow> map_of st' m = map_of st m) \<and>
        \<not> list_ex (inBox v) (exclusive (constraints pt)) \<and>
        (satisfiesPositionConstraints pt v \<or>
         isStage1 \<and> \<not> list_all wfBox (inclusive (constraints pt))) \<and>
        (\<not> isStage1 \<longrightarrow> map_of st n \<noteq> Some v))"

text \<open>A supply that picks the second of two portals and then moves it by \<open>(3, 3, 3)\<close>.\<close>

definition pickSecondUp :: rng where
  "pickSecondUp = prefixRng [1 / 2] (constRng (9 / 10))"

text \<open>The states Stage 2 passes through: the loop variables at the start and after every
  iteration, up to and including the iteration that ends the loop.\<close>

inductive stage2Visits :: "problem \<Rightarrow> s2 \<Rightarrow> rng \<Rightarrow> s2 \<Rightarrow> bool" for p :: problem where
  visitStart: "stage2Visits p s g s"
| visitNext: "stage2Step p s g = Some (s1, Next, g1) \<Longrightarrow> stage2Visits p s1 g1 s' \<Longrightarrow>
     stage2Visits p s g s'"
| visitLast: "stage2Step p s g = Some (s1, ex, g1) \<Longrightarrow> stage2Visits p s g s1"

text \<open>The temperature after one iteration.\<close>

definition stage1TempAfter :: "problem \<Rightarrow> s1 \<Rightarrow> rng \<Rightarrow> rat option" where
  "stage1TempAfter p s g = map_option (\<lambda>(s', ex, g'). stage1Temp s') (stage1Step p s g)"

definition stage2TempAfter :: "problem \<Rightarrow> s2 \<Rightarrow> rng \<Rightarrow> rat option" where
  "stage2TempAfter p s g = map_option (\<lambda>(s', ex, g'). temperature s') (stage2Step p s g)"

text \<open>Stage 2 as it starts from \<open>edgeState\<close>, and the inner loop of Stage 1 as it starts
  from \<open>farState\<close>.\<close>

definition edgeS2 :: s2 where
  "edgeS2 = \<lparr>currentState = edgeState, currentFullCost = 15376, minCost = 15376,
              bestState = edgeState, temperature = initialTemperature\<rparr>"

definition farS1 :: s1 where
  "farS1 = \<lparr>currentState = farState, bestViolationState = farState, minViolationsFound = 2,
             stage1CurrentState = farState, stage1CurrentCost = 2,
             stage1Temp = initialTemperature * stage1TempMultiplier\<rparr>"

text \<open>Two more supplies: the first portal moved by \<open>(3, 3, 3)\<close>; the second portal,
  no large jump, moved by \<open>(3, 3, 3)\<close>.\<close>

definition pickFirstUp :: rng where
  "pickFirstUp = prefixRng [0] (constRng (9 / 10))"

definition pickSecondNoJumpUp :: rng where
  "pickSecondNoJumpUp = prefixRng [1 / 2, 1 / 2] (constRng (9 / 10))"

text \<open>The feasibility that Stage 2 maintains: the weight-0 cost of the current state and
  of the recorded best state is 0.\<close>

definition feasible2 :: "problem \<Rightarrow> s2 \<Rightarrow> bool" where
  "feasible2 p s \<longleftrightarrow> calculateCost p (currentState s) 0 = Some 0 \<and>
                     calculateCost p (bestState s) 0 = Some 0"

text \<open>The state on which \<^verbatim>\<open>initializeState\<close> lands with the random value 1/2
  throughout: both portals in the middle of their boxes.\<close>

definition midState :: state where
  "midState = [(''A'', vec3 0 64 0), (''B'', vec3 0 64 0)]"

definition steady :: rng where
  "steady = constRng (1 / 2)"

text \<open>The neighbors of \<open>edgeState\<close> and \<open>farState\<close> that the supplies above produce.\<close>

definition nearState :: state where
  "nearState = [(''A'', vec3 7 63 3), (''B'', vec3 16 60 0)]"

definition fartherState :: state where
  "fartherState = [(''A'', vec3 4 60 0), (''B'', vec3 22 66 6)]"

text \<open>
  A problem on which Stage 1 cannot move under the supply \<open>trapRng\<close>: the first
  initialization puts \<open>A\<close> at x = 133, where one of the two links holds; every later
  random value is 1/2, so every proposed move is the zero offset, and every later
  initialization puts \<open>A\<close> at x = 200, where no link holds.
\<close>

definition trapProblem :: problem where
  "trapProblem =
     \<lparr>entitySize = 1,
      portals = [(''A'', mkPortal ''A'' O_DIM FaceX [box ''A'' INC 0 60 0 400 60 0] []),
                 (''B'', mkPortal ''B'' N_DIM FaceX [box ''B'' INC 0 60 0 0 60 0] [])],
      positionConstraints = [box ''A'' INC 0 60 0 400 60 0, box ''B'' INC 0 60 0 0 60 0],
      desiredLinks = [\<lparr>source = ''A'', dest = ''B''\<rparr>, \<lparr>source = ''B'', dest = ''A''\<rparr>],
      optimizationPairs = []\<rparr>"

definition trapRng :: rng where
  "trapRng = prefixRng [1 / 2, 1 / 3] steady"

definition trapFirst :: state where
  "trapFirst = [(''A'', vec3 133 60 0), (''B'', vec3 0 60 0)]"

definition trapLater :: state where
  "trapLater = [(''A'', vec3 200 60 0), (''B'', vec3 0 60 0)]"

definition solveResult :: "problem \<Rightarrow> rng \<Rightarrow> result option" where
  "solveResult p g = map_option fst (solve p g)"

section \<open>Properties of the link predicate\<close>



lemma potentialTargets_filter:
  "knownNames p st \<Longrightarrow>
   potentialTargets p d (getSearchRadius d) Bd st = Some (filter (inSearchArea p d Bd) st)"
  by (induction st) (auto simp: knownNames_def inSearchArea_def)

lemma checkProbes_all:
  "knownNames p st \<Longrightarrow>
   checkProbes p d sc (getSearchRadius d) dst st es =
     Some (list_all (\<lambda>e. filter (inSearchArea p d (floorVec3 (scaleVec3XZ e sc))) st \<noteq> [] \<and>
              closestPortal (floorVec3 (scaleVec3XZ e sc))
                (filter (inSearchArea p d (floorVec3 (scaleVec3XZ e sc))) st) = Some dst) es)"
  by (induction es) (auto simp: potentialTargets_filter Let_def)

lemma hub_lookups:
  "map_of (portals hubProblem) ''A'' = Some (mkPortal ''A'' O_DIM FaceX [wideBox ''A''] [])"
  "map_of (portals hubProblem) ''B'' = Some (mkPortal ''B'' N_DIM FaceX [wideBox ''B''] [])"
  "map_of hubState ''A'' = Some (vec3 0 60 0)"
  "map_of hubState ''B'' = Some (vec3 0 60 0)"
  "knownNames hubProblem hubState"
  by (simp_all add: hubProblem_def hubState_def knownNames_def)

lemma hub_links:
  "checkActualLink hubProblem ''A'' ''B'' hubState = Some True"
  "checkActualLink hubProblem ''B'' ''A'' hubState = Some True"
  by (simp_all add: checkActualLink_def hubProblem_def hubState_def mkPortal_def
      getEntityTestPositions_def addVec3_def ENTITY_DECIMAL_OFFSET_def Let_def vec3_def
      floorVec3_def scaleVec3XZ_def getCoordScale_def O_SCALE_def N_SCALE_def Math_floor_def
      getSearchRadius_def O_SEARCH_RADIUS_def N_SEARCH_RADIUS_def closestPortal_def distSq_def)

text \<open>
  \<^bold>\<open>C2.\<close> When the source and the destination are portals of the problem, the source
  has a position and every key of the state is a portal, the link predicate returns
  true if and only if, for each of the three probe points, the candidates (the portals
  of the destination dimension within the search radius of the target block on x and z,
  whatever their y) are not empty and the candidate selected among them is the declared
  destination. An empty candidate list makes a conjunct false, so the predicate is false.
\<close>

theorem checkActualLink_iff_all_probes:
  assumes "map_of (portals p) src = Some srcPortal"
    and "map_of st src = Some srcPos"
    and "map_of (portals p) dst = Some dstPortal"
    and "knownNames p st"
  shows "checkActualLink p src dst st =
     Some (\<forall>e \<in> set (getEntityTestPositions srcPos (face srcPortal) (entitySize p)).
             filter (inSearchArea p (dim dstPortal)
                       (floorVec3 (scaleVec3XZ e (getCoordScale (dim dstPortal))))) st \<noteq> [] \<and>
             closestPortal (floorVec3 (scaleVec3XZ e (getCoordScale (dim dstPortal))))
               (filter (inSearchArea p (dim dstPortal)
                          (floorVec3 (scaleVec3XZ e (getCoordScale (dim dstPortal))))) st)
               = Some dst)"
  using assms by (simp add: checkActualLink_def checkProbes_all list_all_iff Let_def)

theorem checkActualLink_iff_all_probes_witness:
  "map_of (portals hubProblem) ''A'' \<noteq> None \<and> map_of hubState ''A'' \<noteq> None \<and>
   map_of (portals hubProblem) ''B'' \<noteq> None \<and> knownNames hubProblem hubState \<and>
   checkActualLink hubProblem ''A'' ''B'' hubState = Some True \<and>
   list_all (\<lambda>e. filter (inSearchArea hubProblem N_DIM
                          (floorVec3 (scaleVec3XZ e (getCoordScale N_DIM)))) hubState \<noteq> [] \<and>
                 closestPortal (floorVec3 (scaleVec3XZ e (getCoordScale N_DIM)))
                   (filter (inSearchArea hubProblem N_DIM
                              (floorVec3 (scaleVec3XZ e (getCoordScale N_DIM)))) hubState)
                   = Some ''B'')
     (getEntityTestPositions (vec3 0 60 0) FaceX 1)"
  using checkActualLink_iff_all_probes [OF hub_lookups(1) hub_lookups(3) hub_lookups(2) hub_lookups(5)]
    hub_links(1) hub_lookups
  by (simp add: mkPortal_def hubProblem_def list_all_iff)

lemma closestLoop_acc:
  "\<exists>n C. closestLoop Bd ts (Some n0, Num (distSq Bd C0), Num (vy C0)) =
            (Some n, Num (distSq Bd C), Num (vy C)) \<and>
          (n, C) \<in> set ((n0, C0) # ts) \<and>
          (\<forall>mD \<in> set ((n0, C0) # ts).
             distSq Bd C < distSq Bd (snd mD) \<or>
             (distSq Bd C = distSq Bd (snd mD) \<and> vy C \<le> vy (snd mD)))"
proof (induction ts arbitrary: n0 C0)
  case Nil
  show ?case by simp
next
  case (Cons a ts)
  obtain n1 C1 where a: "a = (n1, C1)" by (cases a)
  consider (lt) "distSq Bd C1 < distSq Bd C0"
    | (eqlt) "distSq Bd C1 = distSq Bd C0" "vy C1 < vy C0"
    | (keep) "\<not> distSq Bd C1 < distSq Bd C0" "\<not> (distSq Bd C1 = distSq Bd C0 \<and> vy C1 < vy C0)"
    by blast
  then show ?case
  proof cases
    case lt
    from Cons.IH[of n1 C1] obtain n C where
      h: "closestLoop Bd ts (Some n1, Num (distSq Bd C1), Num (vy C1)) =
            (Some n, Num (distSq Bd C), Num (vy C))"
         "(n, C) \<in> set ((n1, C1) # ts)"
         "\<forall>mD \<in> set ((n1, C1) # ts).
             distSq Bd C < distSq Bd (snd mD) \<or>
             (distSq Bd C = distSq Bd (snd mD) \<and> vy C \<le> vy (snd mD))"
      by blast
    from h(3) have "distSq Bd C \<le> distSq Bd C1" by auto
    with lt have "distSq Bd C < distSq Bd C0" by simp
    with h lt a show ?thesis
      by (intro exI[of _ n] exI[of _ C]) (auto simp: Let_def)
  next
    case eqlt
    from Cons.IH[of n1 C1] obtain n C where
      h: "closestLoop Bd ts (Some n1, Num (distSq Bd C1), Num (vy C1)) =
            (Some n, Num (distSq Bd C), Num (vy C))"
         "(n, C) \<in> set ((n1, C1) # ts)"
         "\<forall>mD \<in> set ((n1, C1) # ts).
             distSq Bd C < distSq Bd (snd mD) \<or>
             (distSq Bd C = distSq Bd (snd mD) \<and> vy C \<le> vy (snd mD))"
      by blast
    from h(3) have "distSq Bd C < distSq Bd C1 \<or> (distSq Bd C = distSq Bd C1 \<and> vy C \<le> vy C1)"
      by auto
    with eqlt have "distSq Bd C < distSq Bd C0 \<or> (distSq Bd C = distSq Bd C0 \<and> vy C \<le> vy C0)"
      by auto
    with h eqlt a show ?thesis
      by (intro exI[of _ n] exI[of _ C]) (auto simp: Let_def)
  next
    case keep
    from Cons.IH[of n0 C0] obtain n C where
      h: "closestLoop Bd ts (Some n0, Num (distSq Bd C0), Num (vy C0)) =
            (Some n, Num (distSq Bd C), Num (vy C))"
         "(n, C) \<in> set ((n0, C0) # ts)"
         "\<forall>mD \<in> set ((n0, C0) # ts).
             distSq Bd C < distSq Bd (snd mD) \<or>
             (distSq Bd C = distSq Bd (snd mD) \<and> vy C \<le> vy (snd mD))"
      by blast
    from h(3) have "distSq Bd C < distSq Bd C0 \<or> (distSq Bd C = distSq Bd C0 \<and> vy C \<le> vy C0)"
      by auto
    with keep have "distSq Bd C < distSq Bd C1 \<or> (distSq Bd C = distSq Bd C1 \<and> vy C \<le> vy C1)"
      by auto
    with h keep a show ?thesis
      by (intro exI[of _ n] exI[of _ C]) (auto simp: Let_def)
  qed
qed

lemma closestPortal_minimal:
  assumes "ts \<noteq> []"
  shows "\<exists>n C. closestPortal Bd ts = Some n \<and> (n, C) \<in> set ts \<and>
           (\<forall>mD \<in> set ts. distSq Bd C \<le> distSq Bd (snd mD)) \<and>
           (\<forall>mD \<in> set ts. distSq Bd (snd mD) = distSq Bd C \<longrightarrow> vy C \<le> vy (snd mD))"
proof -
  from assms obtain n0 C0 rest where ts: "ts = (n0, C0) # rest"
    by (cases ts) auto
  from closestLoop_acc[of Bd rest n0 C0] obtain n C where
    h: "closestLoop Bd rest (Some n0, Num (distSq Bd C0), Num (vy C0)) =
            (Some n, Num (distSq Bd C), Num (vy C))"
       "(n, C) \<in> set ((n0, C0) # rest)"
       "\<forall>mD \<in> set ((n0, C0) # rest).
             distSq Bd C < distSq Bd (snd mD) \<or>
             (distSq Bd C = distSq Bd (snd mD) \<and> vy C \<le> vy (snd mD))"
    by blast
  have "closestPortal Bd ts = Some n"
    using h(1) by (simp add: closestPortal_def ts Let_def)
  moreover have "(n, C) \<in> set ts" using h(2) ts by simp
  moreover have "\<forall>mD \<in> set ts. distSq Bd C \<le> distSq Bd (snd mD)"
    using h(3) ts by fastforce
  moreover have "\<forall>mD \<in> set ts. distSq Bd (snd mD) = distSq Bd C \<longrightarrow> vy C \<le> vy (snd mD)"
    using h(3) ts by fastforce
  ultimately show ?thesis by blast
qed

text \<open>
  \<^bold>\<open>C3.\<close> On a non-empty candidate list the selection returns the name of a
  candidate whose squared Euclidean distance from the target block, the sum of the squares
  of the differences on x, on y and on z, is minimal among the candidates, and whose y is
  lowest among the candidates at that minimal distance.
\<close>

theorem closest_is_nearest_then_lowest:
  assumes "ts \<noteq> []"
  shows "\<exists>n C. closestPortal Bd ts = Some n \<and> (n, C) \<in> set ts \<and>
           (\<forall>mD \<in> set ts.
              (vx Bd - vx C) * (vx Bd - vx C) + (vy Bd - vy C) * (vy Bd - vy C)
                + (vz Bd - vz C) * (vz Bd - vz C)
              \<le> (vx Bd - vx (snd mD)) * (vx Bd - vx (snd mD))
                + (vy Bd - vy (snd mD)) * (vy Bd - vy (snd mD))
                + (vz Bd - vz (snd mD)) * (vz Bd - vz (snd mD))) \<and>
           (\<forall>mD \<in> set ts.
              (vx Bd - vx (snd mD)) * (vx Bd - vx (snd mD))
                + (vy Bd - vy (snd mD)) * (vy Bd - vy (snd mD))
                + (vz Bd - vz (snd mD)) * (vz Bd - vz (snd mD))
              = (vx Bd - vx C) * (vx Bd - vx C) + (vy Bd - vy C) * (vy Bd - vy C)
                + (vz Bd - vz C) * (vz Bd - vz C)
              \<longrightarrow> vy C \<le> vy (snd mD))"
  using closestPortal_minimal [OF assms, of Bd]
  by (simp add: distSq_def Let_def)

theorem closest_is_nearest_then_lowest_witness:
  "tieCandidates \<noteq> [] \<and> closestPortal (vec3 0 0 0) tieCandidates = Some ''R'' \<and>
   distSq (vec3 0 0 0) (vec3 3 (- 4) 0) = 25 \<and> distSq (vec3 0 0 0) (vec3 1 (- 7) 1) = 51"
proof -
  have ne: "tieCandidates \<noteq> []" by (simp add: tieCandidates_def)
  have "closestPortal (vec3 0 0 0) tieCandidates = Some ''R''"
    by (simp add: tieCandidates_def closestPortal_def distSq_def vec3_def)
  with ne closest_is_nearest_then_lowest [OF ne, of "vec3 0 0 0"] show ?thesis
    by (simp add: distSq_def vec3_def)
qed

section \<open>Properties of the cost function\<close>

lemma potentialTargets_portals:
  "portals p' = portals p \<Longrightarrow> potentialTargets p' d r Bd st = potentialTargets p d r Bd st"
  by (induction st) (auto split: option.splits)

lemma checkProbes_portals:
  "portals p' = portals p \<Longrightarrow>
   checkProbes p' d sc r dst st es = checkProbes p d sc r dst st es"
  by (induction es) (simp_all add: potentialTargets_portals [of p' p] Let_def split: option.splits)

lemma checkActualLink_portals:
  "portals p' = portals p \<Longrightarrow> entitySize p' = entitySize p \<Longrightarrow>
   checkActualLink p' src dst st = checkActualLink p src dst st"
  by (simp add: checkActualLink_def checkProbes_portals [of p' p] split: option.splits)

lemma countLinkViolations_portals:
  "portals p' = portals p \<Longrightarrow> entitySize p' = entitySize p \<Longrightarrow>
   countLinkViolations p' ls st = countLinkViolations p ls st"
  by (induction ls) (simp_all add: checkActualLink_portals [of p' p] split: option.splits)

lemma countPosViolations_portals:
  "portals p' = portals p \<Longrightarrow> countPosViolations p' st = countPosViolations p st"
  by (induction st) (auto split: option.splits)

lemma far_cost0: "calculateCost hubProblem farState 0 = Some 2"
  by code_simp

lemma edge_cost0: "calculateCost hubProblem edgeState 0 = Some 0"
  by code_simp

text \<open>
  \<^bold>\<open>C8.\<close> The cost at optimization weight 0 does not depend on the optimization goals:
  replacing the list of goals (and with it every goal weight) of a problem by any other
  list leaves the weight-0 cost of every state unchanged.
\<close>

theorem cost0_independent_of_goals:
  "calculateCost (p\<lparr>optimizationPairs := goals\<rparr>) st 0 = calculateCost p st 0"
  by (simp add: calculateCost_def
      countLinkViolations_portals [of "p\<lparr>optimizationPairs := goals\<rparr>" p]
      countPosViolations_portals [of "p\<lparr>optimizationPairs := goals\<rparr>" p]
      split: option.splits)

theorem cost0_independent_of_goals_witness:
  "calculateCost (hubProblem\<lparr>optimizationPairs := [PositionPair ''A'' (vec3 0 0 0) 5]\<rparr>) farState 0
     = Some 2"
  using cost0_independent_of_goals [where p = hubProblem
      and goals = "[PositionPair ''A'' (vec3 0 0 0) 5]" and st = farState]
    far_cost0
  by simp

section \<open>Properties of the finalization\<close>

lemma cost0_counts:
  "calculateCost p st 0 = Some v \<longleftrightarrow>
     (\<exists>k m. countLinkViolations p (desiredLinks p) st = Some k \<and>
            countPosViolations p st = Some m \<and> v = of_nat k + of_nat m * 10000000)"
  by (auto simp: calculateCost_def split: option.splits)

lemma far_links: "countLinkViolations hubProblem (desiredLinks hubProblem) farState = Some 2"
  by code_simp

lemma far_final_some: "finalizeResult hubProblem farState \<noteq> None"
  by code_simp

lemma far_final_message:
  "map_option message (finalizeResult hubProblem farState) =
     Some ''Constraints violated. Best attempt shown. Desired links not satisfied: A -> B; B -> A. (Internal Error: Final state has 2 violations)''"
  by code_simp

lemma finalizeResult_internal_error:
  assumes "finalizeResult p best = Some r"
    and "countLinkViolations p (desiredLinks p) best = Some k"
    and "k > 0"
  shows "\<not> success r \<and>
         (\<exists>r0 v. verifySolution p best = Some r0 \<and> calculateCost p best 0 = Some v \<and> v > 0 \<and>
            message r = (if message r0 = [] then ''Optimization finished.'' else message r0)
                        @ '' (Internal Error: Final state has '' @ numToString v
                        @ '' violations)'') \<and>
         message r \<noteq> ''Solution found and optimized.'' \<and> message r \<noteq> ''Solution found.''"
proof -
  from assms(1) obtain r0 v where r0: "verifySolution p best = Some r0"
    and v: "calculateCost p best 0 = Some v"
    by (auto simp: finalizeResult_def split: option.splits)
  from v assms(2) obtain m where "v = of_nat k + of_nat m * 10000000"
    by (auto simp: cost0_counts)
  with assms(3) have pos: "v > 0"
    by (simp add: add_pos_nonneg)
  from assms(1) r0 v pos show ?thesis
    by (auto simp: finalizeResult_def)
qed

section \<open>Properties of the parser\<close>

lemma parsePortal_keeps:
  "(\<forall>ps'. parsePortal parts ps = Inr ps' \<longrightarrow> entitySize (fst ps') = entitySize (fst ps)) \<and>
   parsePortal parts ps \<noteq> Inl InvalidEntitySizeFormat \<and>
   parsePortal parts ps \<noteq> Inl EntitySizeMustBePositive"
  by (simp add: parsePortal_def Let_def)

lemma parsePos_keeps:
  "(\<forall>ps'. parsePos nm parts ps = Inr ps' \<longrightarrow> entitySize (fst ps') = entitySize (fst ps)) \<and>
   parsePos nm parts ps \<noteq> Inl InvalidEntitySizeFormat \<and>
   parsePos nm parts ps \<noteq> Inl EntitySizeMustBePositive"
  by (simp add: parsePos_def Let_def split: option.splits)

lemma parseLink_keeps:
  "(\<forall>ps'. parseLink parts ps = Inr ps' \<longrightarrow> entitySize (fst ps') = entitySize (fst ps)) \<and>
   parseLink parts ps \<noteq> Inl InvalidEntitySizeFormat \<and>
   parseLink parts ps \<noteq> Inl EntitySizeMustBePositive"
  by (simp add: parseLink_def Let_def split: option.splits)

lemma parseOptimize_keeps:
  "(\<forall>ps'. parseOptimize pf parts ps = Inr ps' \<longrightarrow> entitySize (fst ps') = entitySize (fst ps)) \<and>
   parseOptimize pf parts ps \<noteq> Inl InvalidEntitySizeFormat \<and>
   parseOptimize pf parts ps \<noteq> Inl EntitySizeMustBePositive"
  by (simp add: parseOptimize_def Let_def split: option.splits)

lemma parseOptimizePos_keeps:
  "(\<forall>ps'. parseOptimizePos pf nm parts ps = Inr ps' \<longrightarrow>
      entitySize (fst ps') = entitySize (fst ps)) \<and>
   parseOptimizePos pf nm parts ps \<noteq> Inl InvalidEntitySizeFormat \<and>
   parseOptimizePos pf nm parts ps \<noteq> Inl EntitySizeMustBePositive"
  by (simp add: parseOptimizePos_def Let_def split: option.splits)

lemma parseDirective_other:
  assumes "commandOf parts \<noteq> ''ENTITY_SIZE''"
  shows "(\<forall>ps'. parseDirective pf nm parts ps = Inr ps' \<longrightarrow>
            entitySize (fst ps') = entitySize (fst ps)) \<and>
         parseDirective pf nm parts ps \<noteq> Inl InvalidEntitySizeFormat \<and>
         parseDirective pf nm parts ps \<noteq> Inl EntitySizeMustBePositive"
  using assms parsePortal_keeps [of parts ps] parsePos_keeps [of nm parts ps]
    parseLink_keeps [of parts ps] parseOptimize_keeps [of pf parts ps]
    parseOptimizePos_keeps [of pf nm parts ps]
  unfolding parseDirective_def Let_def
  by (simp del: One_nat_def)

lemma parseLines_step:
  "parseLines pf nm i (raw # raws) ps =
     (if skipped (trim raw) then parseLines pf nm (i + 1) raws ps
      else (case parseDirective pf nm (splitWs False [] (trim raw)) ps of
              Inl msg \<Rightarrow> Inl (LineError (i + 1) (trim raw) msg)
            | Inr ps' \<Rightarrow> parseLines pf nm (i + 1) raws ps'))"
  by (simp add: Let_def)

lemma parseLines_keeps_entitySize:
  "\<not> list_ex isEntitySizeLine raws \<Longrightarrow> parseLines pf nm i raws ps = Inr ps' \<Longrightarrow>
   entitySize (fst ps') = entitySize (fst ps)"
proof (induction raws arbitrary: i ps)
  case Nil
  then show ?case by simp
next
  case (Cons raw raws)
  from Cons.prems(1) have rest: "\<not> list_ex isEntitySizeLine raws" by simp
  show ?case
  proof (cases "skipped (trim raw)")
    case True
    with Cons.prems(2) have "parseLines pf nm (i + 1) raws ps = Inr ps'"
      by (simp only: parseLines_step if_True)
    from Cons.IH [OF rest this] show ?thesis .
  next
    case False
    with Cons.prems(1) have cmd: "commandOf (splitWs False [] (trim raw)) \<noteq> ''ENTITY_SIZE''"
      by (simp add: isEntitySizeLine_def)
    note d = parseDirective_other [OF cmd, of pf nm ps]
    show ?thesis
    proof (cases "parseDirective pf nm (splitWs False [] (trim raw)) ps")
      case (Inl msg)
      with False Cons.prems(2) show ?thesis
        by (simp only: parseLines_step if_False sum.case sum.distinct)
    next
      case (Inr ps1)
      with d have e: "entitySize (fst ps1) = entitySize (fst ps)" by blast
      from False Inr Cons.prems(2) have "parseLines pf nm (i + 1) raws ps1 = Inr ps'"
        by (simp only: parseLines_step if_False sum.case)
      from Cons.IH [OF rest this] e show ?thesis by (rule trans)
    qed
  qed
qed

lemma parseLines_no_entity_size_error:
  "\<not> list_ex isEntitySizeLine raws \<Longrightarrow> parseLines pf nm i raws ps = Inl (LineError j l m) \<Longrightarrow>
   m \<noteq> InvalidEntitySizeFormat \<and> m \<noteq> EntitySizeMustBePositive"
proof (induction raws arbitrary: i ps)
  case Nil
  then show ?case by simp
next
  case (Cons raw raws)
  from Cons.prems(1) have rest: "\<not> list_ex isEntitySizeLine raws" by simp
  show ?case
  proof (cases "skipped (trim raw)")
    case True
    with Cons.prems(2) have "parseLines pf nm (i + 1) raws ps = Inl (LineError j l m)"
      by (simp only: parseLines_step if_True)
    from Cons.IH [OF rest this] show ?thesis .
  next
    case False
    with Cons.prems(1) have cmd: "commandOf (splitWs False [] (trim raw)) \<noteq> ''ENTITY_SIZE''"
      by (simp add: isEntitySizeLine_def)
    note d = parseDirective_other [OF cmd, of pf nm ps]
    show ?thesis
    proof (cases "parseDirective pf nm (splitWs False [] (trim raw)) ps")
      case (Inl msg)
      with False Cons.prems(2) have "m = msg"
        by (simp only: parseLines_step if_False sum.case sum.inject parseError.inject)
      with d Inl show ?thesis by blast
    next
      case (Inr ps1)
      from False Inr Cons.prems(2) have "parseLines pf nm (i + 1) raws ps1 = Inl (LineError j l m)"
        by (simp only: parseLines_step if_False sum.case)
      from Cons.IH [OF rest this] show ?thesis .
    qed
  qed
qed

lemma sample_no_entity_size: "\<not> hasEntitySize sampleText"
  by code_simp

lemma sample_parses:
  "(case parseProblem readDecimal readDecimal sampleText of
      Inl e \<Rightarrow> False | Inr p \<Rightarrow> entitySize p = 1)"
  by code_simp

lemma entity_size_zero_rejected:
  "parseProblem readDecimal readDecimal (''ENTITY_SIZE 0'' @ [CHR 0x0A] @ sampleText) =
     Inl (LineError 1 ''ENTITY_SIZE 0'' EntitySizeMustBePositive)"
  by code_simp

text \<open>
  \<^bold>\<open>C10.\<close> A text none of whose lines is an \<^verbatim>\<open>ENTITY_SIZE\<close> directive never fails
  with one of the two \<^verbatim>\<open>ENTITY_SIZE\<close> errors (the format error and the positivity
  error), whatever the two number readers are, and every problem it parses to has the
  entity width 1.
\<close>

theorem entity_size_defaults_to_one:
  assumes "\<not> hasEntitySize inputText"
  shows "(\<forall>p. parseProblem parseFloat Number inputText = Inr p \<longrightarrow> entitySize p = 1) \<and>
         (\<forall>j l. parseProblem parseFloat Number inputText
                  \<noteq> Inl (LineError j l InvalidEntitySizeFormat) \<and>
                parseProblem parseFloat Number inputText
                  \<noteq> Inl (LineError j l EntitySizeMustBePositive))"
proof -
  from assms have ne: "\<not> list_ex isEntitySizeLine (splitLines [] inputText)"
    by (simp add: hasEntitySize_def)
  show ?thesis
  proof (cases "parseLines parseFloat Number 0 (splitLines [] inputText) (emptyProblem, [])")
    case (Inl e)
    then have r: "parseProblem parseFloat Number inputText = Inl e"
      by (simp add: parseProblem_def)
    have "e \<noteq> LineError j l InvalidEntitySizeFormat \<and> e \<noteq> LineError j l EntitySizeMustBePositive"
      for j l
      using parseLines_no_entity_size_error [OF ne, of parseFloat Number 0 "(emptyProblem, [])" j l]
        Inl by blast
    with r show ?thesis by simp
  next
    case (Inr ps)
    from parseLines_keeps_entitySize [OF ne Inr] have e: "entitySize (fst ps) = 1"
      by (simp add: emptyProblem_def)
    from Inr have "parseProblem parseFloat Number inputText = Inr (fst ps) \<or>
        (\<exists>n. parseProblem parseFloat Number inputText = Inl (NoInclusiveConstraint n))"
      by (simp add: parseProblem_def split: option.splits prod.splits)
    with e show ?thesis by auto
  qed
qed

theorem entity_size_defaults_to_one_witness:
  "\<not> hasEntitySize sampleText \<and>
   (\<exists>p. parseProblem readDecimal readDecimal sampleText = Inr p \<and> entitySize p = 1)"
proof -
  from sample_parses obtain p where p: "parseProblem readDecimal readDecimal sampleText = Inr p"
    by (cases "parseProblem readDecimal readDecimal sampleText") auto
  from entity_size_defaults_to_one [OF sample_no_entity_size, of readDecimal readDecimal] p
  have "entitySize p = 1" by blast
  with p sample_no_entity_size show ?thesis by blast
qed

section \<open>Properties of the neighbor generator\<close>

lemma copyState_id: "copyState st = st"
  by (induction st) (auto simp: copyState_def copyVec3_def)

lemma unitRng_next:
  "unitRng g \<Longrightarrow> Math_random g = (r, g') \<Longrightarrow> 0 \<le> r \<and> r < 1 \<and> unitRng g'"
  by (auto simp: unitRng_def Math_random_def)

lemma randomInt_range:
  assumes "0 \<le> r" "r < 1" "lo \<le> hi" "isInteger lo" "isInteger hi"
  shows "lo \<le> randomInt r lo hi \<and> randomInt r lo hi \<le> hi"
proof -
  from assms(4,5) obtain a b where lo: "lo = of_int a" and hi: "hi = of_int b"
    by (metis isInteger_def)
  from assms(3) lo hi have ab: "a \<le> b" by simp
  have nn: "0 \<le> r * (hi - lo + 1)" using assms(1,3) by simp
  then have f0: "0 \<le> \<lfloor>r * (hi - lo + 1)\<rfloor>" by simp
  have "r * (hi - lo + 1) < hi - lo + 1"
    using assms(2,3) by (simp add: mult_less_cancel_right1)
  then have "r * (hi - lo + 1) < of_int (b - a + 1)" by (simp add: lo hi)
  then have "\<lfloor>r * (hi - lo + 1)\<rfloor> < b - a + 1" by (simp only: floor_less_iff)
  then have f1: "\<lfloor>r * (hi - lo + 1)\<rfloor> \<le> b - a" by simp
  have "(of_int \<lfloor>r * (hi - lo + 1)\<rfloor> :: rat) \<le> of_int (b - a)"
    using f1 by (simp only: of_int_le_iff)
  then have "of_int \<lfloor>r * (hi - lo + 1)\<rfloor> + lo \<le> hi" by (simp add: lo hi)
  moreover have "lo \<le> of_int \<lfloor>r * (hi - lo + 1)\<rfloor> + lo" using f0 by simp
  ultimately show ?thesis by (simp add: randomInt_def Math_floor_def)
qed

lemma randomPosIn_inBox:
  assumes "unitRng g" "wfBox c" "randomPosIn c g = (v, g')"
  shows "inBox v c \<and> unitRng g'"
proof -
  obtain r1 g1 where 1: "Math_random g = (r1, g1)" by (cases "Math_random g")
  obtain r2 g2 where 2: "Math_random g1 = (r2, g2)" by (cases "Math_random g1")
  obtain r3 g3 where 3: "Math_random g2 = (r3, g3)" by (cases "Math_random g2")
  from unitRng_next [OF assms(1) 1] have u1: "0 \<le> r1" "r1 < 1" "unitRng g1" by auto
  from unitRng_next [OF u1(3) 2] have u2: "0 \<le> r2" "r2 < 1" "unitRng g2" by auto
  from unitRng_next [OF u2(3) 3] have u3: "0 \<le> r3" "r3 < 1" "unitRng g3" by auto
  from assms(3) 1 2 3 have v: "v = vec3 (randomInt r1 (vx (cmin c)) (vx (cmax c)))
               (randomInt r2 (vy (cmin c)) (vy (cmax c)))
               (randomInt r3 (vz (cmin c)) (vz (cmax c)))" and g': "g' = g3"
    by (simp_all add: randomPosIn_def)
  from assms(2) have w: "isInteger (vx (cmin c))" "isInteger (vx (cmax c))" "vx (cmin c) \<le> vx (cmax c)"
     "isInteger (vy (cmin c))" "isInteger (vy (cmax c))" "vy (cmin c) \<le> vy (cmax c)"
     "isInteger (vz (cmin c))" "isInteger (vz (cmax c))" "vz (cmin c) \<le> vz (cmax c)"
    by (simp_all add: wfBox_def)
  note rx = randomInt_range [OF u1(1,2) w(3) w(1,2)]
  note ry = randomInt_range [OF u2(1,2) w(6) w(4,5)]
  note rz = randomInt_range [OF u3(1,2) w(9) w(7,8)]
  from rx ry rz show ?thesis by (simp add: v g' inBox_def vec3_def u3)
qed

lemma jsIndex_random:
  assumes "0 \<le> r" "r < 1" "xs \<noteq> []"
  shows "\<exists>a. jsIndex xs (randomInt r 0 (of_nat (length xs) - 1)) = Some a \<and> a \<in> set xs"
proof -
  let ?n = "length xs"
  have n: "0 < ?n" using assms(3) by simp
  have nn: "0 \<le> r * of_nat ?n" using assms(1) by simp
  have "r * of_nat ?n < of_nat ?n" using assms(2) n by simp
  then have "r * of_nat ?n < of_int (int ?n)" by simp
  then have lt: "\<lfloor>r * of_nat ?n\<rfloor> < int ?n" by (simp only: floor_less_iff)
  have ge: "0 \<le> \<lfloor>r * of_nat ?n\<rfloor>" using nn by simp
  have ri: "randomInt r 0 (of_nat ?n - 1) = of_int \<lfloor>r * of_nat ?n\<rfloor>"
    by (simp add: randomInt_def Math_floor_def)
  have "nat \<lfloor>r * of_nat ?n\<rfloor> < ?n" using lt ge by linarith
  then show ?thesis using ge by (simp add: ri jsIndex_def)
qed

lemma randomPosIn_unit:
  "unitRng g \<Longrightarrow> randomPosIn c g = (v, g') \<Longrightarrow> unitRng g'"
  by (auto simp: randomPosIn_def Math_random_def unitRng_def Let_def split: prod.splits)

lemma largeJumpLoop_ok:
  assumes "unitRng g"
  shows "\<exists>res g'. largeJumpLoop pt k g = Some (res, g') \<and> unitRng g' \<and>
           (\<forall>v. res = Some v \<longrightarrow>
              \<not> list_ex (inBox v) (exclusive (constraints pt)) \<and>
              (list_all wfBox (inclusive (constraints pt)) \<longrightarrow>
                 satisfiesPositionConstraints pt v))"
  using assms
proof (induction k arbitrary: g)
  case 0
  then show ?case by simp
next
  case (Suc k)
  show ?case
  proof (cases "inclusive (constraints pt) = []")
    case True
    with Suc.prems show ?thesis by simp
  next
    case False
    obtain r0 g0 where 0: "Math_random g = (r0, g0)" by (cases "Math_random g")
    from unitRng_next [OF Suc.prems 0] have u: "0 \<le> r0" "r0 < 1" "unitRng g0" by auto
    from jsIndex_random [OF u(1,2) False] obtain c where
      c: "jsIndex (inclusive (constraints pt))
            (randomInt r0 0 (of_nat (length (inclusive (constraints pt))) - 1)) = Some c"
      and cin: "c \<in> set (inclusive (constraints pt))" by blast
    obtain v g1 where rp: "randomPosIn c g0 = (v, g1)" by (cases "randomPosIn c g0")
    from randomPosIn_unit [OF u(3) rp] have u1: "unitRng g1" .
    show ?thesis
    proof (cases "list_ex (inBox v) (exclusive (constraints pt))")
      case True
      with False 0 c rp Suc.IH [OF u1] show ?thesis by (simp add: Let_def)
    next
      case nex: False
      have "satisfiesPositionConstraints pt v" if w: "list_all wfBox (inclusive (constraints pt))"
      proof -
        from cin w have wc: "wfBox c" by (simp add: list_all_iff)
        from randomPosIn_inBox [OF u(3) wc rp] have "inBox v c" by simp
        with cin have "list_ex (inBox v) (inclusive (constraints pt))"
          by (auto simp: list_ex_iff)
        with nex show ?thesis by (simp add: satisfiesPositionConstraints_def)
      qed
      with False 0 c rp nex u1 show ?thesis by (simp add: Let_def)
    qed
  qed
qed

lemma randomMove_unit:
  "unitRng g \<Longrightarrow> randomMove g = (m, g') \<Longrightarrow> unitRng g'"
  by (auto simp: randomMove_def Math_random_def unitRng_def Let_def split: prod.splits)

lemma smallMoveLoop_ok:
  assumes "unitRng g"
  shows "\<exists>res g'. smallMoveLoop (Some pt) (Some cur) k g = Some (res, g') \<and> unitRng g' \<and>
           (\<forall>v. res = Some v \<longrightarrow> satisfiesPositionConstraints pt v \<and> v \<noteq> cur)"
  using assms
proof (induction k arbitrary: g)
  case 0
  then show ?case by simp
next
  case (Suc k)
  obtain m g1 where rm: "randomMove g = (m, g1)" by (cases "randomMove g")
  from randomMove_unit [OF Suc.prems rm] have u1: "unitRng g1" .
  note ih = Suc.IH [OF u1]
  define z where "z \<longleftrightarrow> vx m = 0 \<and> vy m = 0 \<and> vz m = 0"
  define ok where "ok \<longleftrightarrow> list_ex (inBox (addVec3 cur m)) (inclusive (constraints pt)) \<and>
                  \<not> list_ex (inBox (addVec3 cur m)) (exclusive (constraints pt))"
  have step: "smallMoveLoop (Some pt) (Some cur) (Suc k) g =
      (if z then smallMoveLoop (Some pt) (Some cur) k g1
       else if ok then Some (Some (addVec3 cur m), g1)
       else smallMoveLoop (Some pt) (Some cur) k g1)"
    by (auto simp: rm Let_def z_def ok_def)
  show ?case
  proof (cases z)
    case True
    with step ih show ?thesis by simp
  next
    case nz: False
    then have ne: "addVec3 cur m \<noteq> cur"
      by (cases cur) (auto simp: addVec3_def z_def)
    show ?thesis
    proof (cases ok)
      case True
      then have "satisfiesPositionConstraints pt (addVec3 cur m)"
        by (simp add: satisfiesPositionConstraints_def ok_def)
      with step nz True ne u1 show ?thesis by simp
    next
      case False
      with step nz ih show ?thesis by simp
    qed
  qed
qed


lemma generateNeighbor_unfold:
  assumes "Math_random g = (r0, g0)"
    and "jsIndex (portalNames p) (randomInt r0 0 (of_nat (length (portalNames p)) - 1)) = Some n"
    and "map_of (portals p) n = Some pt"
    and "map_of st n = Some cur"
  shows "generateNeighbor p st isStage1 g =
     (case (if isStage1
            then (if fst (Math_random g0) < stage1LargeJumpChance
                  then largeJumpLoop pt 10 (snd (Math_random g0))
                  else Some (None, snd (Math_random g0)))
            else Some (None, g0)) of
        None \<Rightarrow> None
      | Some (Some randomPos, g2) \<Rightarrow> Some (Some (AList.update n randomPos st), g2)
      | Some (None, g2) \<Rightarrow>
          (case smallMoveLoop (Some pt) (Some cur) 50 g2 of
             None \<Rightarrow> None
           | Some (None, g3) \<Rightarrow> Some (None, g3)
           | Some (Some nextPos, g3) \<Rightarrow> Some (Some (AList.update n nextPos st), g3)))"
  using assms
  by (auto simp: generateNeighbor_def copyState_id Let_def split: prod.splits option.splits)

lemma small_part:
  assumes u: "unitRng g2" and pt: "map_of (portals p) n = Some pt" and cur: "map_of st n = Some cur"
  shows "\<exists>res g'. (case smallMoveLoop (Some pt) (Some cur) 50 g2 of
             None \<Rightarrow> None
           | Some (None, g3) \<Rightarrow> Some (None, g3)
           | Some (Some nextPos, g3) \<Rightarrow> Some (Some (AList.update n nextPos st), g3)) = Some (res, g') \<and>
         unitRng g' \<and> (\<forall>st'. res = Some st' \<longrightarrow> neighborOf p st b st')"
proof -
  from smallMoveLoop_ok [OF u, of pt cur 50] obtain res g' where
    s: "smallMoveLoop (Some pt) (Some cur) 50 g2 = Some (res, g')" and u': "unitRng g'"
    and v: "\<forall>v. res = Some v \<longrightarrow> satisfiesPositionConstraints pt v \<and> v \<noteq> cur" by blast
  show ?thesis
  proof (cases res)
    case None
    with s u' show ?thesis by simp
  next
    case (Some w)
    with v have sat: "satisfiesPositionConstraints pt w" and "w \<noteq> cur" by auto
    from sat have "\<not> list_ex (inBox w) (exclusive (constraints pt))"
      by (simp add: satisfiesPositionConstraints_def split: if_splits)
    with sat \<open>w \<noteq> cur\<close> pt cur have "neighborOf p st b (AList.update n w st)"
      unfolding neighborOf_def
      by (intro exI [of _ n] exI [of _ pt] exI [of _ w]) (simp add: update_conv')
    with s Some u' show ?thesis by simp
  qed
qed

lemma unitRng_pickSecondUp: "unitRng pickSecondUp"
  by (auto simp: unitRng_def pickSecondUp_def constRng_def split: nat.splits)

lemma hub_wf:
  "portals hubProblem \<noteq> [] \<and> hasPositions hubProblem edgeState \<and>
   hasPositions hubProblem cornerState"
  by code_simp

lemma unitRng_const: "0 \<le> c \<Longrightarrow> c < 1 \<Longrightarrow> unitRng (constRng c)"
  by (simp add: unitRng_def constRng_def)

lemma hub_containment:
  "satisfiesPositionConstraints (mkPortal ''B'' N_DIM FaceX [wideBox ''B''] []) (vec3 19 63 3) \<and>
   satisfiesPositionConstraints (mkPortal ''A'' O_DIM FaceX [wideBox ''A''] [])
     (vec3 (- 200) 0 (- 200))"
  by code_simp

lemma edge_neighbor:
  "map_option fst (generateNeighbor hubProblem edgeState False pickSecondUp) = Some (Some farState)"
  by code_simp

lemma corner_jump:
  "map_option fst (generateNeighbor hubProblem cornerState True (constRng 0)) =
     Some (Some cornerState)"
  by code_simp

text \<open>
  \<^bold>\<open>C7.\<close> As stated the claim fails, in both of its halves. A large jump draws its
  point without looking at the current position, and may draw that very position: on
  \<open>cornerState\<close> it returns the state it was given, in which no position differs. And a
  large jump checks the exclusive boxes only: in a box with the bounds 0 and 1/2 it draws
  x = 1, a position outside every inclusive box of the portal.
\<close>

theorem large_jump_may_return_input:
  "map_option fst (generateNeighbor hubProblem cornerState True (constRng 0)) =
     Some (Some cornerState) \<and>
   map_option fst (generateNeighbor fracProblem fracState True fracRng) = Some (Some fracMoved) \<and>
   map_of (portals fracProblem) ''A'' = Some fracPortal \<and>
   map_of fracMoved ''A'' = Some (vec3 1 0 0) \<and>
   \<not> satisfiesPositionConstraints fracPortal (vec3 1 0 0)"
  by code_simp

text \<open>
  \<^bold>\<open>C7, amended.\<close> For a problem with at least one portal, a state with a position
  for every portal and random values in \<open>[0, 1)\<close>, the generator returns without an
  exception, either the failure value or a state that differs from the input in at most
  the position of one portal. The new position of that portal lies outside all its
  exclusive boxes; it satisfies the whole containment rule when large jumps are off, and
  when all inclusive boxes of the portal have integer bounds with \<open>min \<le> max\<close>. When
  large jumps are off the new position differs from the old one, so exactly one position
  differs.
\<close>

theorem neighbor_moves_at_most_one_portal:
  assumes u: "unitRng g" and ne: "portals p \<noteq> []" and hp: "hasPositions p st"
  shows "\<exists>res g'. generateNeighbor p st isStage1 g = Some (res, g') \<and> unitRng g' \<and>
           (\<forall>st'. res = Some st' \<longrightarrow>
              neighborOf p st isStage1 st' \<and>
              (\<exists>n pt v. map_of (portals p) n = Some pt \<and> st' = AList.update n v st \<and>
                 (\<not> isStage1 \<or> list_all wfBox (inclusive (constraints pt)) \<longrightarrow>
                    satisfiesPositionConstraints pt v)))"
proof -
  have nb: "neighborOf p st isStage1 st' \<Longrightarrow>
      (\<exists>n pt v. map_of (portals p) n = Some pt \<and> st' = AList.update n v st \<and>
         (\<not> isStage1 \<or> list_all wfBox (inclusive (constraints pt)) \<longrightarrow>
            satisfiesPositionConstraints pt v))" for st'
    unfolding neighborOf_def by blast
  obtain r0 g0 where 0: "Math_random g = (r0, g0)" by (cases "Math_random g")
  from unitRng_next [OF u 0] have u0: "0 \<le> r0" "r0 < 1" "unitRng g0" by auto
  from ne have "portalNames p \<noteq> []" by (simp add: portalNames_def)
  from jsIndex_random [OF u0(1,2) this] obtain n where
    n: "jsIndex (portalNames p) (randomInt r0 0 (of_nat (length (portalNames p)) - 1)) = Some n"
    and nin: "n \<in> set (portalNames p)" by blast
  from nin obtain pt where pt: "map_of (portals p) n = Some pt"
    by (cases "map_of (portals p) n") (auto simp: portalNames_def map_of_eq_None_iff)
  from nin hp obtain cur where cur: "map_of st n = Some cur"
    by (auto simp: hasPositions_def list_all_iff)
  note unf = generateNeighbor_unfold [OF 0 n pt cur, of isStage1]
  have "\<exists>res g'. generateNeighbor p st isStage1 g = Some (res, g') \<and> unitRng g' \<and>
           (\<forall>st'. res = Some st' \<longrightarrow> neighborOf p st isStage1 st')"
  proof (cases "isStage1 \<and> fst (Math_random g0) < stage1LargeJumpChance")
    case True
    obtain r1 g1 where 1: "Math_random g0 = (r1, g1)" by (cases "Math_random g0")
    from unitRng_next [OF u0(3) 1] have u1: "unitRng g1" by auto
    from largeJumpLoop_ok [OF u1, of pt 10] obtain res g2 where
      j: "largeJumpLoop pt 10 g1 = Some (res, g2)" and u2: "unitRng g2"
      and v: "\<forall>v. res = Some v \<longrightarrow>
              \<not> list_ex (inBox v) (exclusive (constraints pt)) \<and>
              (list_all wfBox (inclusive (constraints pt)) \<longrightarrow>
                 satisfiesPositionConstraints pt v)" by blast
    show ?thesis
    proof (cases res)
      case None
      with small_part [OF u2 pt cur, where b = isStage1] unf True 1 j show ?thesis by simp
    next
      case (Some w)
      with v have "\<not> list_ex (inBox w) (exclusive (constraints pt))"
        "list_all wfBox (inclusive (constraints pt)) \<longrightarrow> satisfiesPositionConstraints pt w"
        by simp_all
      with pt True have "neighborOf p st isStage1 (AList.update n w st)"
        unfolding neighborOf_def
        by (intro exI [of _ n] exI [of _ pt] exI [of _ w]) (auto simp: update_conv')
      with unf True 1 j Some u2 show ?thesis by simp
    qed
  next
    case False
    show ?thesis
    proof (cases isStage1)
      case True
      obtain r1 g1 where 1: "Math_random g0 = (r1, g1)" by (cases "Math_random g0")
      from unitRng_next [OF u0(3) 1] have u1: "unitRng g1" by auto
      from small_part [OF u1 pt cur, where b = isStage1] unf True False 1 show ?thesis by simp
    next
      case nf: False
      from small_part [OF u0(3) pt cur, where b = isStage1] unf nf show ?thesis by simp
    qed
  qed
  with nb show ?thesis by blast
qed

theorem neighbor_moves_at_most_one_portal_witness:
  "unitRng pickSecondUp \<and> unitRng (constRng 0) \<and> portals hubProblem \<noteq> [] \<and>
   hasPositions hubProblem edgeState \<and> hasPositions hubProblem cornerState \<and>
   map_option fst (generateNeighbor hubProblem edgeState False pickSecondUp) = Some (Some farState) \<and>
   neighborOf hubProblem edgeState False farState \<and>
   neighborOf hubProblem cornerState True cornerState \<and>
   satisfiesPositionConstraints (mkPortal ''B'' N_DIM FaceX [wideBox ''B''] []) (vec3 19 63 3) \<and>
   satisfiesPositionConstraints (mkPortal ''A'' O_DIM FaceX [wideBox ''A''] [])
     (vec3 (- 200) 0 (- 200))"
proof -
  from hub_wf have w: "portals hubProblem \<noteq> []" "hasPositions hubProblem edgeState"
    "hasPositions hubProblem cornerState" by simp_all
  have u0: "unitRng (constRng 0)" by (simp add: unitRng_const)
  from neighbor_moves_at_most_one_portal [OF unitRng_pickSecondUp w(1,2), of False]
  obtain res g' where r: "generateNeighbor hubProblem edgeState False pickSecondUp = Some (res, g')"
    and n: "\<forall>st'. res = Some st' \<longrightarrow> neighborOf hubProblem edgeState False st'" by blast
  from r edge_neighbor have "res = Some farState" by simp
  with n have a: "neighborOf hubProblem edgeState False farState" by simp
  from neighbor_moves_at_most_one_portal [OF u0 w(1,3), of True]
  obtain res2 g2 where r2: "generateNeighbor hubProblem cornerState True (constRng 0) = Some (res2, g2)"
    and n2: "\<forall>st'. res2 = Some st' \<longrightarrow> neighborOf hubProblem cornerState True st'" by blast
  from r2 corner_jump have "res2 = Some cornerState" by simp
  with n2 have b: "neighborOf hubProblem cornerState True cornerState" by simp
  from a b w u0 unitRng_pickSecondUp edge_neighbor hub_containment show ?thesis by simp
qed

section \<open>Properties of the annealer\<close>

lemma cost0_nonneg: "calculateCost p st 0 = Some v \<Longrightarrow> 0 \<le> v"
  by (auto simp: cost0_counts)

lemma cost0_zero_links:
  "calculateCost p st 0 = Some 0 \<Longrightarrow> countLinkViolations p (desiredLinks p) st = Some 0"
proof -
  assume "calculateCost p st 0 = Some 0"
  then obtain k m where k: "countLinkViolations p (desiredLinks p) st = Some k"
    and e: "(0::rat) = of_nat k + of_nat m * 10000000"
    by (auto simp: cost0_counts)
  have "(0::rat) \<le> of_nat m * 10000000" by simp
  with e have "(of_nat k :: rat) \<le> 0" by linarith
  then have "k = 0" by simp
  with k show ?thesis by simp
qed

lemma Math_random_cases: obtains r g' where "Math_random g = (r, g')"
  by (cases "Math_random g")

lemma stage2Step_reject:
  assumes "generateNeighbor p (currentState s) False g = Some (Some nb, g1)"
    and "calculateCost p nb 0 = Some v" and "v > 0"
  shows "stage2Step p s g = Some (s, Next, g1)"
  using assms by (simp add: stage2Step_def)

lemma stage2Step_none:
  assumes "generateNeighbor p (currentState s) False g = Some (None, g1)"
  shows "stage2Step p s g = Some (s, Next, g1)"
  using assms by (simp add: stage2Step_def)

lemma stage2Step_cases:
  assumes "stage2Step p s g = Some (s', ex, g')"
  obtains (skip) "s' = s"
  | (decide) nb g1 full a g2 where
      "generateNeighbor p (currentState s) False g = Some (Some nb, g1)"
      "calculateCost p nb 0 = Some 0"
      "calculateCost p nb 1 = Some full"
      "stage2Accept (full - currentFullCost s) (temperature s) g1 = (a, g2)"
      "temperature s' = temperature s * coolingRate"
      "currentState s' = (if a then nb else currentState s)"
      "bestState s' = (if a \<and> full < minCost s then nb else bestState s)"
proof -
  from assms obtain res g1 where gn: "generateNeighbor p (currentState s) False g = Some (res, g1)"
    by (auto simp: stage2Step_def split: option.splits)
  show ?thesis
  proof (cases res)
    case None
    with gn assms have "s' = s" by (simp add: stage2Step_def)
    then show ?thesis by (rule skip)
  next
    case (Some nb)
    with gn assms obtain v where v: "calculateCost p nb 0 = Some v"
      by (auto simp: stage2Step_def split: option.splits)
    show ?thesis
    proof (cases "v > 0")
      case True
      with gn Some v assms have "s' = s" by (simp add: stage2Step_def)
      then show ?thesis by (rule skip)
    next
      case False
      with cost0_nonneg [OF v] have v0: "v = 0" by simp
      from gn Some v v0 assms obtain full where full: "calculateCost p nb 1 = Some full"
        by (auto simp: stage2Step_def split: option.splits)
      obtain a g2 where acc: "stage2Accept (full - currentFullCost s) (temperature s) g1 = (a, g2)"
        by (cases "stage2Accept (full - currentFullCost s) (temperature s) g1")
      from gn Some v v0 full acc assms
      have "temperature s' = temperature s * coolingRate"
        "currentState s' = (if a then nb else currentState s)"
        "bestState s' = (if a \<and> full < minCost s then nb else bestState s)"
        by (auto simp: stage2Step_def Let_def copyState_id split: if_splits)
      with gn Some v v0 full acc show ?thesis by (intro decide) auto
    qed
  qed
qed

lemma stage2Step_feasible:
  assumes "feasible2 p s" and "stage2Step p s g = Some (s', ex, g')"
  shows "feasible2 p s'"
  using assms(2)
proof (cases rule: stage2Step_cases)
  case skip
  with assms(1) show ?thesis by simp
next
  case (decide nb g1 full a g2)
  with assms(1) show ?thesis by (simp add: feasible2_def)
qed

lemma stage2Visits_feasible:
  "stage2Visits p s g s' \<Longrightarrow> feasible2 p s \<Longrightarrow> feasible2 p s'"
proof (induction rule: stage2Visits.induct)
  case (visitStart s g)
  then show ?case .
next
  case (visitNext s g s1 g1 s')
  from stage2Step_feasible [OF visitNext.prems visitNext.hyps(1)] visitNext.IH show ?case
    by blast
next
  case (visitLast s g s1 ex g1)
  from stage2Step_feasible [OF visitLast.prems visitLast.hyps] show ?case .
qed

lemma stage2Loop_visits:
  "stage2Loop p n s g = Some (sf, gf) \<Longrightarrow> stage2Visits p s g sf"
proof (induction n arbitrary: s g)
  case 0
  then show ?case by (simp add: stage2Visits.visitStart)
next
  case (Suc n)
  from Suc.prems obtain s1 ex g1 where st: "stage2Step p s g = Some (s1, ex, g1)"
    by (auto split: option.splits)
  show ?case
  proof (cases ex)
    case Next
    with Suc.prems st have "stage2Loop p n s1 g1 = Some (sf, gf)" by simp
    from Suc.IH [OF this] st Next show ?thesis by (auto intro: stage2Visits.visitNext)
  next
    case FoundFeasible
    with Suc.prems st have "sf = s1" by simp
    with st show ?thesis by (auto intro: stage2Visits.visitLast)
  next
    case Cooled
    with Suc.prems st have "sf = s1" by simp
    with st show ?thesis by (auto intro: stage2Visits.visitLast)
  qed
qed

lemma stage1Step_found:
  assumes "stage1Step p s g = Some (s', FoundFeasible, g')"
  shows "calculateCost p (stage1CurrentState s') 0 = Some 0"
proof -
  from assms obtain res g1 where gn: "generateNeighbor p (stage1CurrentState s) True g = Some (res, g1)"
    by (auto simp: stage1Step_def split: option.splits)
  from gn assms obtain nb where nb: "res = Some nb"
    by (cases res) (auto simp: stage1Step_def)
  from gn nb assms obtain c where c: "calculateCost p nb 0 = Some c"
    by (auto simp: stage1Step_def split: option.splits)
  obtain a g2 where acc: "stage1Accept (c - stage1CurrentCost s) (stage1Temp s) g1 = (a, g2)"
    by (cases "stage1Accept (c - stage1CurrentCost s) (stage1Temp s) g1")
  from gn nb c acc assms have "a \<and> c = 0 \<and> stage1CurrentState s' = nb"
    by (auto simp: stage1Step_def Let_def split: if_splits)
  with c show ?thesis by simp
qed

lemma stage1Loop_found:
  "stage1Loop p n s g = Some (s', True, g') \<Longrightarrow>
   calculateCost p (stage1CurrentState s') 0 = Some 0"
proof (induction n arbitrary: s g)
  case 0
  then show ?case by simp
next
  case (Suc n)
  from Suc.prems obtain s1 ex g1 where st: "stage1Step p s g = Some (s1, ex, g1)"
    by (auto split: option.splits)
  show ?case
  proof (cases ex)
    case Next
    with Suc.prems st have "stage1Loop p n s1 g1 = Some (s', True, g')" by simp
    from Suc.IH [OF this] show ?thesis .
  next
    case FoundFeasible
    with Suc.prems st have "s' = s1" by simp
    with stage1Step_found st FoundFeasible show ?thesis by blast
  next
    case Cooled
    with Suc.prems st show ?thesis by simp
  qed
qed

lemma runAttempt_found:
  assumes "runAttempt p attempt v g = Some (v', Some fs, g')"
  shows "calculateCost p fs 0 = Some 0"
proof -
  from assms obtain c where c: "calculateCost p (currentState v) 0 = Some c"
    by (auto simp: runAttempt_def copyState_id Let_def split: option.splits)
  show ?thesis
  proof (cases "c = 0")
    case True
    with c assms show ?thesis by (simp add: runAttempt_def copyState_id Let_def)
  next
    case False
    with c assms obtain s ff g1 where
      l: "stage1Loop p stage1Iterations
            \<lparr>currentState = currentState v,
             bestViolationState = (if c < minViolationsFound v then currentState v
                                   else bestViolationState v),
             minViolationsFound = (if c < minViolationsFound v then c else minViolationsFound v),
             stage1CurrentState = currentState v, stage1CurrentCost = c,
             stage1Temp = initialTemperature * stage1TempMultiplier\<rparr> g = Some (s, ff, g1)"
      by (auto simp: runAttempt_def copyState_id Let_def split: option.splits if_splits)
    from c False l assms have ff: "ff" and fs: "fs = stage1CurrentState s"
      by (auto simp: runAttempt_def copyState_id Let_def split: option.splits if_splits)
    from l ff have "stage1Loop p stage1Iterations
            \<lparr>currentState = currentState v,
             bestViolationState = (if c < minViolationsFound v then currentState v
                                   else bestViolationState v),
             minViolationsFound = (if c < minViolationsFound v then c else minViolationsFound v),
             stage1CurrentState = currentState v, stage1CurrentCost = c,
             stage1Temp = initialTemperature * stage1TempMultiplier\<rparr> g = Some (s, True, g1)"
      by simp
    from stage1Loop_found [OF this] fs show ?thesis by simp
  qed
qed

lemma stage1Attempt_found:
  assumes "stage1Attempt p attempt v g = Some (v', Some fs, g')"
  shows "calculateCost p fs 0 = Some 0"
  using assms runAttempt_found
  by (auto simp: stage1Attempt_def split: if_splits option.splits)

lemma stage1Attempts_found:
  "stage1Attempts p k attempt v g = Some (v', Some fs, g') \<Longrightarrow> calculateCost p fs 0 = Some 0"
proof (induction k arbitrary: attempt v g)
  case 0
  then show ?case by simp
next
  case (Suc k)
  from Suc.prems obtain v1 r g1 where a: "stage1Attempt p attempt v g = Some (v1, r, g1)"
    by (auto split: option.splits)
  show ?case
  proof (cases r)
    case None
    with Suc.prems a have "stage1Attempts p k (attempt + 1) v1 g1 = Some (v', Some fs, g')" by simp
    from Suc.IH [OF this] show ?thesis .
  next
    case (Some x)
    with Suc.prems a have "x = fs" by simp
    with a Some stage1Attempt_found show ?thesis by blast
  qed
qed

lemma stage1_found:
  "stage1 p st0 g = Some (v, Some fs, g') \<Longrightarrow> calculateCost p fs 0 = Some 0"
  using stage1Attempts_found by (auto simp: stage1_def split: option.splits)

lemma stage2_visits:
  assumes "calculateCost p fs 0 = Some 0" and "stage2 p fs g = Some (sf, gf)"
  shows "\<exists>s0. feasible2 p s0 \<and> stage2Visits p s0 g sf"
proof -
  from assms(2) obtain full where
    l: "stage2Loop p stage2Iterations
          \<lparr>currentState = fs, currentFullCost = full, minCost = full, bestState = fs,
           temperature = initialTemperature\<rparr> g = Some (sf, gf)"
    by (auto simp: stage2_def copyState_id Let_def split: option.splits)
  from assms(1) have "feasible2 p \<lparr>currentState = fs, currentFullCost = full, minCost = full,
      bestState = fs, temperature = initialTemperature\<rparr>"
    by (simp add: feasible2_def)
  with stage2Loop_visits [OF l] show ?thesis by blast
qed

lemma Math_random_const: "Math_random (constRng c) = (c, constRng c)"
  by (simp add: Math_random_def constRng_def)

lemma Math_random_prefix: "Math_random (prefixRng (a # as) g) = (a, prefixRng as g)"
  by (simp add: Math_random_def)

lemma randomInt_half: "randomInt (1 / 2) (- moveRange) moveRange = 0"
  by code_simp

lemma randomMove_steady: "randomMove steady = (vec3 0 0 0, steady)"
  by (simp add: randomMove_def steady_def Math_random_const randomInt_half)

lemma smallMoveLoop_steady: "smallMoveLoop pt cur k steady = Some (None, steady)"
  by (induction k) (simp_all add: randomMove_steady vec3_def)

lemma generateNeighbor_steady: "generateNeighbor p st b steady = Some (None, steady)"
proof -
  have m: "Math_random steady = (1 / 2, steady)"
    by (simp add: steady_def Math_random_const)
  show ?thesis
    by (simp add: generateNeighbor_def Let_def m smallMoveLoop_steady stage1LargeJumpChance_def)
qed

lemma stage1Step_steady: "stage1Step p s steady = Some (s, Next, steady)"
  by (simp add: stage1Step_def generateNeighbor_steady)

lemma stage1Loop_steady: "stage1Loop p n s steady = Some (s, False, steady)"
  by (induction n) (simp_all add: stage1Step_steady)

lemma stage2Step_steady: "stage2Step p s steady = Some (s, Next, steady)"
  by (simp add: stage2Step_def generateNeighbor_steady)

lemma stage2Loop_steady: "stage2Loop p n s steady = Some (s, steady)"
  by (induction n) (simp_all add: stage2Step_steady)

lemma mid_cost0: "calculateCost hubProblem midState 0 = Some 0"
  by code_simp

lemma mid_cost1: "calculateCost hubProblem midState 1 = Some 0"
  by code_simp

lemma edge_neighbor_full:
  "\<exists>g1. generateNeighbor hubProblem edgeState False pickSecondUp = Some (Some farState, g1)"
  using edge_neighbor
  by (cases "generateNeighbor hubProblem edgeState False pickSecondUp") auto

lemma stage1_mid: "stage1 hubProblem midState steady = Some
    (\<lparr>currentState = midState, bestViolationState = midState, minViolationsFound = 0\<rparr>,
     Some midState, steady)"
  by (simp add: stage1_def copyState_id mid_cost0 stage1MaxAttempts_def eval_nat_numeral
      stage1Attempt_def runAttempt_def Let_def)

lemma stage2_mid: "stage2 hubProblem midState steady = Some
    (\<lparr>currentState = midState, currentFullCost = 0, minCost = 0, bestState = midState,
      temperature = initialTemperature\<rparr>, steady)"
  by (simp add: stage2_def copyState_id mid_cost1 stage2Loop_steady)

text \<open>
  \<^bold>\<open>C4.\<close> In Stage 2 a proposed neighbor whose weight-0 cost is positive, as it is
  when its link-violation count is not zero, ends the iteration at once: the loop
  variables are unchanged and no random value is drawn for an acceptance. Hence, from a
  current and a best state of weight-0 cost 0, every state the loop passes through has
  weight-0 cost 0 and no link violation, for the current and for the recorded best
  state; the final state of the loop is one of them. The state Stage 1 hands over has
  weight-0 cost 0, so the best state recorded by Stage 2 in a run of the solver has no
  link violation.
\<close>

theorem stage2_accepts_only_feasible:
  "(generateNeighbor p (currentState s) False g = Some (Some nb, g1) \<and>
      calculateCost p nb 0 = Some v \<and> v > 0 \<longrightarrow> stage2Step p s g = Some (s, Next, g1)) \<and>
   (generateNeighbor p (currentState s) False g = Some (Some nb, g1) \<and>
      countLinkViolations p (desiredLinks p) nb = Some k \<and> k > 0 \<and>
      calculateCost p nb 0 \<noteq> None \<longrightarrow> stage2Step p s g = Some (s, Next, g1)) \<and>
   (calculateCost p (currentState s) 0 = Some 0 \<and> calculateCost p (bestState s) 0 = Some 0 \<and>
      stage2Visits p s g s' \<longrightarrow>
        countLinkViolations p (desiredLinks p) (currentState s') = Some 0 \<and>
        countLinkViolations p (desiredLinks p) (bestState s') = Some 0 \<and>
        calculateCost p (currentState s') 0 = Some 0 \<and>
        calculateCost p (bestState s') 0 = Some 0) \<and>
   (stage2Loop p n s g = Some (sf, gf) \<longrightarrow> stage2Visits p s g sf) \<and>
   (stage1 p st0 g0 = Some (v1, Some fs, g2) \<and> stage2 p fs g2 = Some (sl, g3) \<longrightarrow>
        countLinkViolations p (desiredLinks p) (bestState sl) = Some 0 \<and>
        calculateCost p (bestState sl) 0 = Some 0)"
proof -
  have a: "stage2Step p s g = Some (s, Next, g1)"
    if "generateNeighbor p (currentState s) False g = Some (Some nb, g1)"
      "calculateCost p nb 0 = Some v" "v > 0"
    using that by (rule stage2Step_reject)
  have a': "stage2Step p s g = Some (s, Next, g1)"
    if "generateNeighbor p (currentState s) False g = Some (Some nb, g1)"
      "countLinkViolations p (desiredLinks p) nb = Some k" "k > 0"
      "calculateCost p nb 0 \<noteq> None"
  proof -
    from that(4) obtain w where w: "calculateCost p nb 0 = Some w" by auto
    with that(2) obtain m where "w = of_nat k + of_nat m * 10000000"
      by (auto simp: cost0_counts)
    with that(3) have "w > 0" by (simp add: add_pos_nonneg)
    from stage2Step_reject [OF that(1) w this] show ?thesis .
  qed
  have b: "countLinkViolations p (desiredLinks p) (currentState s') = Some 0 \<and>
        countLinkViolations p (desiredLinks p) (bestState s') = Some 0 \<and>
        calculateCost p (currentState s') 0 = Some 0 \<and>
        calculateCost p (bestState s') 0 = Some 0"
    if "calculateCost p (currentState s) 0 = Some 0" "calculateCost p (bestState s) 0 = Some 0"
      "stage2Visits p s g s'"
  proof -
    from that(1,2) have "feasible2 p s" by (simp add: feasible2_def)
    from stage2Visits_feasible [OF that(3) this] show ?thesis
      by (simp add: feasible2_def cost0_zero_links)
  qed
  have c: "stage2Visits p s g sf" if "stage2Loop p n s g = Some (sf, gf)"
    using that by (rule stage2Loop_visits)
  have d: "countLinkViolations p (desiredLinks p) (bestState sl) = Some 0 \<and>
        calculateCost p (bestState sl) 0 = Some 0"
    if "stage1 p st0 g0 = Some (v1, Some fs, g2)" "stage2 p fs g2 = Some (sl, g3)"
  proof -
    from stage1_found [OF that(1)] have "calculateCost p fs 0 = Some 0" .
    from stage2_visits [OF this that(2)] obtain s0 where "feasible2 p s0" "stage2Visits p s0 g2 sl"
      by blast
    from stage2Visits_feasible [OF this(2,1)] show ?thesis
      by (simp add: feasible2_def cost0_zero_links)
  qed
  from a a' b c d show ?thesis by blast
qed

theorem stage2_accepts_only_feasible_witness:
  "calculateCost hubProblem farState 0 = Some 2 \<and>
   map_option fst (stage2Step hubProblem edgeS2 pickSecondUp) = Some edgeS2 \<and>
   calculateCost hubProblem (currentState edgeS2) 0 = Some 0 \<and>
   calculateCost hubProblem (bestState edgeS2) 0 = Some 0 \<and>
   stage2Visits hubProblem edgeS2 pickSecondUp edgeS2 \<and>
   countLinkViolations hubProblem (desiredLinks hubProblem) (bestState edgeS2) = Some 0 \<and>
   map_option fst (stage2 hubProblem midState steady) \<noteq> None \<and>
   countLinkViolations hubProblem (desiredLinks hubProblem) midState = Some 0"
proof -
  from edge_neighbor_full obtain g1 where
    n: "generateNeighbor hubProblem edgeState False pickSecondUp = Some (Some farState, g1)" ..
  have cur: "currentState edgeS2 = edgeState" "bestState edgeS2 = edgeState"
    by (simp_all add: edgeS2_def)
  note t = stage2_accepts_only_feasible [where p = hubProblem and s = edgeS2 and g = pickSecondUp
      and nb = farState and ?g1.0 = g1 and v = 2 and s' = edgeS2 and ?st0.0 = midState
      and ?g0.0 = steady and fs = midState and ?g2.0 = steady
      and ?v1.0 = "\<lparr>currentState = midState, bestViolationState = midState,
                       minViolationsFound = 0\<rparr>"
      and sl = "\<lparr>currentState = midState, currentFullCost = 0, minCost = 0,
                  bestState = midState, temperature = initialTemperature\<rparr>"
      and ?g3.0 = steady]
  from t n far_cost0 cur have a: "stage2Step hubProblem edgeS2 pickSecondUp = Some (edgeS2, Next, g1)"
    by simp
  from t cur edge_cost0 stage2Visits.visitStart [of hubProblem edgeS2 pickSecondUp]
  have b: "countLinkViolations hubProblem (desiredLinks hubProblem) (bestState edgeS2) = Some 0"
    by simp
  from t stage1_mid stage2_mid
  have c: "countLinkViolations hubProblem (desiredLinks hubProblem) midState = Some 0"
    by simp
  from a b c far_cost0 cur edge_cost0 stage2_mid show ?thesis
    by (simp add: stage2Visits.visitStart)
qed

lemma stage1Step_decided:
  assumes gn: "generateNeighbor p (stage1CurrentState s) True g = Some (Some nb, g1)"
    and c: "calculateCost p nb 0 = Some c"
  shows "\<exists>s' ex g'. stage1Step p s g = Some (s', ex, g') \<and>
           (ex = FoundFeasible \<longrightarrow> c = 0) \<and>
           (ex \<noteq> FoundFeasible \<longrightarrow> stage1Temp s' = stage1Temp s * stage1CoolingRate)"
proof -
  obtain a g2 where acc: "stage1Accept (c - stage1CurrentCost s) (stage1Temp s) g1 = (a, g2)"
    by (cases "stage1Accept (c - stage1CurrentCost s) (stage1Temp s) g1")
  show ?thesis
    using gn c acc by (auto simp: stage1Step_def Let_def)
qed

lemma stage2Step_decided:
  assumes gn: "generateNeighbor p (currentState s) False g = Some (Some nb, g1)"
    and c: "calculateCost p nb 0 = Some 0"
    and f: "calculateCost p nb 1 = Some full"
  shows "\<exists>s' ex g'. stage2Step p s g = Some (s', ex, g') \<and>
           temperature s' = temperature s * coolingRate"
proof -
  obtain a g2 where acc: "stage2Accept (full - currentFullCost s) (temperature s) g1 = (a, g2)"
    by (cases "stage2Accept (full - currentFullCost s) (temperature s) g1")
  show ?thesis
    using gn c f acc by (auto simp: stage2Step_def Let_def)
qed

lemma near_neighbor:
  "map_option fst (generateNeighbor hubProblem edgeState False pickFirstUp) = Some (Some nearState)"
  by code_simp

lemma near_cost0: "calculateCost hubProblem nearState 0 = Some 0"
  by code_simp

lemma near_cost1: "calculateCost hubProblem nearState 1 = Some 14659"
  by code_simp

lemma farther_neighbor:
  "map_option fst (generateNeighbor hubProblem farState True pickSecondNoJumpUp) = Some (Some fartherState)"
  by code_simp

lemma farther_cost0: "calculateCost hubProblem fartherState 0 = Some 2"
  by code_simp

text \<open>
  \<^bold>\<open>C6.\<close> As stated the claim fails: an iteration that ends with \<^verbatim>\<open>continue\<close>
  never reaches the cooling line. In Stage 2 the temperature after an iteration whose
  neighbor generation failed, and after one whose neighbor was infeasible, is the
  temperature before it; so it is in Stage 1 after a failed generation.
\<close>

theorem cooling_skipped_on_continue:
  "stage2TempAfter hubProblem edgeS2 steady = Some (temperature edgeS2) \<and>
   stage2TempAfter hubProblem edgeS2 pickSecondUp = Some (temperature edgeS2) \<and>
   stage1TempAfter hubProblem farS1 steady = Some (stage1Temp farS1) \<and>
   temperature edgeS2 * coolingRate \<noteq> temperature edgeS2 \<and>
   stage1Temp farS1 * stage1CoolingRate \<noteq> stage1Temp farS1"
proof -
  from edge_neighbor_full obtain g1 where
    "generateNeighbor hubProblem (currentState edgeS2) False pickSecondUp = Some (Some farState, g1)"
    by (auto simp: edgeS2_def)
  from stage2Step_reject [OF this far_cost0]
  have "stage2Step hubProblem edgeS2 pickSecondUp = Some (edgeS2, Next, g1)" by simp
  then have "stage2TempAfter hubProblem edgeS2 pickSecondUp = Some (temperature edgeS2)"
    by (simp add: stage2TempAfter_def)
  moreover have "stage2TempAfter hubProblem edgeS2 steady = Some (temperature edgeS2)"
    by (simp add: stage2TempAfter_def stage2Step_steady)
  moreover have "stage1TempAfter hubProblem farS1 steady = Some (stage1Temp farS1)"
    by (simp add: stage1TempAfter_def stage1Step_steady)
  moreover have "temperature edgeS2 * coolingRate \<noteq> temperature edgeS2"
    by (simp add: edgeS2_def coolingRate_def initialTemperature_def)
  moreover have "stage1Temp farS1 * stage1CoolingRate \<noteq> stage1Temp farS1"
    by (simp add: farS1_def stage1CoolingRate_def initialTemperature_def stage1TempMultiplier_def)
  ultimately show ?thesis by simp
qed

text \<open>
  \<^bold>\<open>C6, amended.\<close> The temperature is multiplied by the cooling factor on every
  iteration that reaches the acceptance decision, whatever that decision is: in Stage 2
  when a neighbor was generated and its weight-0 cost is 0, in Stage 1 when a neighbor was
  generated and the iteration does not end the loop by reaching zero violations. An
  iteration whose neighbor generation failed, or whose neighbor Stage 2 rejected as
  infeasible, leaves all loop variables, the temperature among them, unchanged.
\<close>

theorem cooling_on_decided_iterations:
  "(generateNeighbor p (currentState s) False g = Some (Some nb, g1) \<and>
      calculateCost p nb 0 = Some 0 \<and> stage2Step p s g = Some (s', ex, g') \<longrightarrow>
        temperature s' = temperature s * coolingRate) \<and>
   (generateNeighbor p (stage1CurrentState t) True g = Some (Some nb, g1) \<and>
      stage1Step p t g = Some (t', ex, g') \<and> ex \<noteq> FoundFeasible \<longrightarrow>
        stage1Temp t' = stage1Temp t * stage1CoolingRate) \<and>
   (generateNeighbor p (currentState s) False g = Some (None, g1) \<longrightarrow>
        stage2Step p s g = Some (s, Next, g1)) \<and>
   (generateNeighbor p (currentState s) False g = Some (Some nb, g1) \<and>
      calculateCost p nb 0 = Some v \<and> v > 0 \<longrightarrow> stage2Step p s g = Some (s, Next, g1)) \<and>
   (generateNeighbor p (stage1CurrentState t) True g = Some (None, g1) \<longrightarrow>
        stage1Step p t g = Some (t, Next, g1))"
proof -
  have a: "temperature s' = temperature s * coolingRate"
    if "generateNeighbor p (currentState s) False g = Some (Some nb, g1)"
      "calculateCost p nb 0 = Some 0" "stage2Step p s g = Some (s', ex, g')"
  proof -
    from that obtain full where "calculateCost p nb 1 = Some full"
      by (auto simp: stage2Step_def split: option.splits)
    from stage2Step_decided [OF that(1,2) this] that(3) show ?thesis by auto
  qed
  have b: "stage1Temp t' = stage1Temp t * stage1CoolingRate"
    if "generateNeighbor p (stage1CurrentState t) True g = Some (Some nb, g1)"
      "stage1Step p t g = Some (t', ex, g')" "ex \<noteq> FoundFeasible"
  proof -
    from that(1,2) obtain c where "calculateCost p nb 0 = Some c"
      by (auto simp: stage1Step_def split: option.splits)
    from stage1Step_decided [OF that(1) this] that(2,3) show ?thesis by auto
  qed
  have c: "stage2Step p s g = Some (s, Next, g1)"
    if "generateNeighbor p (currentState s) False g = Some (None, g1)"
    using that by (rule stage2Step_none)
  have d: "stage2Step p s g = Some (s, Next, g1)"
    if "generateNeighbor p (currentState s) False g = Some (Some nb, g1)"
      "calculateCost p nb 0 = Some v" "v > 0"
    using that by (rule stage2Step_reject)
  have e: "stage1Step p t g = Some (t, Next, g1)"
    if "generateNeighbor p (stage1CurrentState t) True g = Some (None, g1)"
    using that by (simp add: stage1Step_def)
  from a b c d e show ?thesis by blast
qed

theorem cooling_on_decided_iterations_witness:
  "stage2TempAfter hubProblem edgeS2 pickFirstUp = Some (temperature edgeS2 * coolingRate) \<and>
   stage1TempAfter hubProblem farS1 pickSecondNoJumpUp = Some (stage1Temp farS1 * stage1CoolingRate)"
proof -
  from near_neighbor obtain g1 where
    n2: "generateNeighbor hubProblem (currentState edgeS2) False pickFirstUp = Some (Some nearState, g1)"
    by (cases "generateNeighbor hubProblem edgeState False pickFirstUp") (auto simp: edgeS2_def)
  from stage2Step_decided [OF n2 near_cost0 near_cost1] obtain s' ex g' where
    st2: "stage2Step hubProblem edgeS2 pickFirstUp = Some (s', ex, g')" by blast
  from farther_neighbor obtain h1 where
    n1: "generateNeighbor hubProblem (stage1CurrentState farS1) True pickSecondNoJumpUp
           = Some (Some fartherState, h1)"
    by (cases "generateNeighbor hubProblem farState True pickSecondNoJumpUp") (auto simp: farS1_def)
  from stage1Step_decided [OF n1 farther_cost0] obtain t' ex1 h' where
    st1: "stage1Step hubProblem farS1 pickSecondNoJumpUp = Some (t', ex1, h')"
    and nf: "ex1 \<noteq> FoundFeasible" by auto
  note t = cooling_on_decided_iterations [where p = hubProblem and s = edgeS2 and g = pickFirstUp
      and nb = nearState and ?g1.0 = g1 and s' = s' and ex = ex and g' = g']
  note u = cooling_on_decided_iterations [where p = hubProblem and t = farS1
      and g = pickSecondNoJumpUp and nb = fartherState and ?g1.0 = h1 and t' = t' and ex = ex1
      and g' = h']
  from t n2 near_cost0 st2 have "temperature s' = temperature edgeS2 * coolingRate" by blast
  moreover from u n1 st1 nf have "stage1Temp t' = stage1Temp farS1 * stage1CoolingRate" by blast
  ultimately show ?thesis using st1 st2 by (simp add: stage1TempAfter_def stage2TempAfter_def)
qed

lemma trap_randomInts:
  "randomInt (1 / 2) 0 0 = 0" "randomInt (1 / 3) 0 400 = 133" "randomInt (1 / 2) 0 400 = 200"
  "randomInt (1 / 2) 60 60 = 60"
  by code_simp+

lemma jsIndex_single: "jsIndex [c] 0 = Some c"
  by (simp add: jsIndex_def)

lemma Math_random_steady: "Math_random steady = (1 / 2, steady)"
  by (simp add: steady_def Math_random_const)

lemma trap_init_first: "initializeState trapProblem trapRng = Some (Some trapFirst, steady)"
  by (simp add: initializeState_def portalNames_def trapProblem_def trapRng_def mkPortal_def
      box_def eval_nat_numeral Math_random_prefix Math_random_steady randomPosIn_def
      trap_randomInts jsIndex_single satisfiesPositionConstraints_def inBox_def vec3_def
      trapFirst_def Let_def del: prefixRng.simps(2))

lemma trap_init_later: "initializeState trapProblem steady = Some (Some trapLater, steady)"
  by (simp add: initializeState_def portalNames_def trapProblem_def mkPortal_def
      box_def eval_nat_numeral Math_random_steady randomPosIn_def
      trap_randomInts jsIndex_single satisfiesPositionConstraints_def inBox_def vec3_def
      trapLater_def Let_def)

lemma trap_first_cost0: "calculateCost trapProblem trapFirst 0 = Some 1"
  by code_simp

lemma trap_later_cost0: "calculateCost trapProblem trapLater 0 = Some 2"
  by code_simp

lemma runAttempt_steady:
  assumes "calculateCost p (currentState v) 0 = Some c" and "c \<noteq> 0"
    and "\<not> c < minViolationsFound v"
  shows "runAttempt p attempt v steady = Some (v, None, steady)"
  using assms
  by (simp add: runAttempt_def copyState_id Let_def stage1Loop_steady)

lemma trap_stage1:
  "stage1 trapProblem trapFirst steady =
     Some (\<lparr>currentState = trapLater, bestViolationState = trapLater, minViolationsFound = 2\<rparr>,
           None, steady)"
proof -
  let ?v1 = "\<lparr>currentState = trapFirst, bestViolationState = trapFirst, minViolationsFound = 1\<rparr>"
  let ?v2 = "\<lparr>currentState = trapLater, bestViolationState = trapLater, minViolationsFound = 2\<rparr>"
  have a1: "stage1Attempt trapProblem (Suc 0) ?v1 steady = Some (?v1, None, steady)"
    by (simp add: stage1Attempt_def runAttempt_steady [where c = 1] trap_first_cost0)
  have r2: "runAttempt trapProblem k ?v2 steady = Some (?v2, None, steady)" for k
    by (simp add: runAttempt_steady [where c = 2] trap_later_cost0)
  have a2: "stage1Attempt trapProblem (Suc (Suc 0)) ?v1 steady = Some (?v2, None, steady)"
    by (simp add: stage1Attempt_def trap_init_later copyState_id trap_later_cost0 r2)
  have a3: "stage1Attempt trapProblem (Suc (Suc (Suc 0))) ?v2 steady = Some (?v2, None, steady)"
    by (simp add: stage1Attempt_def trap_init_later copyState_id trap_later_cost0 r2)
  have "stage1Attempts trapProblem (Suc (Suc (Suc 0))) (Suc 0) ?v1 steady = Some (?v2, None, steady)"
    by (simp add: a1 a2 a3)
  then show ?thesis
    by (simp add: stage1_def copyState_id trap_first_cost0 stage1MaxAttempts_def eval_nat_numeral)
qed

lemma verifySolution_solution:
  "verifySolution p st = Some r \<Longrightarrow> solution r = Some st"
  by (auto simp: verifySolution_def Let_def split: option.splits)

lemma trap_verify: "verifySolution trapProblem trapLater \<noteq> None"
  by code_simp

lemma two_text: "numToString 2 = ''2''"
  by code_simp

text \<open>Every attempt after the first that initializes a state starts its tracking anew:
  the best state and the minimum of the attempts before it have no effect on it.\<close>

lemma stage1Attempt_resets_tracking:
  assumes "1 < attempt" and "initializeState p g = Some (Some st, g')"
  shows "stage1Attempt p attempt (v\<lparr>bestViolationState := b, minViolationsFound := m\<rparr>) g =
         stage1Attempt p attempt v g"
  using assms by (simp add: stage1Attempt_def split: option.splits)

text \<open>
  \<^bold>\<open>C5.\<close> The claim: Stage 1 keeps the state of lowest violation count over all its
  attempts and, when no attempt reaches zero, the run fails reporting that state. The
  code on \<open>trapProblem\<close> with the supply \<open>trapRng\<close>: the first attempt starts in
  \<open>trapFirst\<close>, which has one violation; no attempt reaches zero; the run fails and
  reports \<open>trapLater\<close>, the state of the later attempts, which has two violations, with
  the minimum 2 in its message.
\<close>

theorem stage1_reports_last_attempt:
  "map_option fst (initializeState trapProblem trapRng) = Some (Some trapFirst) \<and>
   calculateCost trapProblem trapFirst 0 = Some 1 \<and>
   calculateCost trapProblem trapLater 0 = Some 2 \<and>
   map_option solution (solveResult trapProblem trapRng) = Some (Some trapLater) \<and>
   map_option success (solveResult trapProblem trapRng) = Some False \<and>
   map_option message (solveResult trapProblem trapRng) =
     Some ''Stage 1 Failed: Could not find state satisfying all link constraints (min violations = 2). Best attempt shown.''"
proof -
  from trap_verify obtain r0 where r0: "verifySolution trapProblem trapLater = Some r0" by auto
  from verifySolution_solution [OF r0] have s: "solution r0 = Some trapLater" .
  have "solve trapProblem trapRng =
      Some (r0\<lparr>message := ''Stage 1 Failed: Could not find state satisfying all link constraints (min violations = 2). Best attempt shown.'',
                success := False\<rparr>, steady)"
    by (simp add: solve_def trap_init_first trap_stage1 stage1FailedResult_def r0 two_text)
  with s show ?thesis
    by (simp add: solveResult_def trap_init_first trap_first_cost0 trap_later_cost0)
qed

lemma hub_randomInts:
  "randomInt (1 / 2) (- 200) 200 = 0" "randomInt (1 / 2) 0 128 = 64"
  by code_simp+

lemma hub_init: "initializeState hubProblem steady = Some (Some midState, steady)"
  by (simp add: initializeState_def portalNames_def hubProblem_def mkPortal_def wideBox_def
      box_def eval_nat_numeral Math_random_steady randomPosIn_def
      trap_randomInts hub_randomInts jsIndex_single satisfiesPositionConstraints_def inBox_def
      vec3_def midState_def Let_def)

lemma mid_final:
  "map_option message (finalizeResult hubProblem midState) = Some ''Solution found and optimized.''"
  by code_simp

text \<open>
  \<^bold>\<open>C9.\<close> When Stage 1 has handed a state over and Stage 2 has ended, the result
  \<open>solve\<close> returns is the result of the finalization of the best state Stage 2
  recorded. When that state has a nonzero link-violation count, the weight-0 cost the
  finalization computes is positive, the result has its success flag false, and its
  message is the message of the verification followed by the internal-error text with
  that cost; it is neither of the two success messages.
\<close>

theorem internal_error_is_failure:
  "(initializeState p g = Some (Some st0, g1) \<and> stage1 p st0 g1 = Some (v1, Some fs, g2) \<and>
      stage2 p fs g2 = Some (s, g3) \<longrightarrow>
        solve p g = (case finalizeResult p (bestState s) of
                       None \<Rightarrow> None
                     | Some r \<Rightarrow> Some (r, g3))) \<and>
   (finalizeResult p best = Some r \<and>
      countLinkViolations p (desiredLinks p) best = Some k \<and> k > 0 \<longrightarrow>
        \<not> success r \<and>
        (\<exists>r0 v. verifySolution p best = Some r0 \<and> calculateCost p best 0 = Some v \<and> v > 0 \<and>
           message r = (if message r0 = [] then ''Optimization finished.'' else message r0)
                       @ '' (Internal Error: Final state has '' @ numToString v
                       @ '' violations)'') \<and>
        message r \<noteq> ''Solution found and optimized.'' \<and> message r \<noteq> ''Solution found.'')"
proof -
  have a: "solve p g = (case finalizeResult p (bestState s) of
                       None \<Rightarrow> None
                     | Some r \<Rightarrow> Some (r, g3))"
    if "initializeState p g = Some (Some st0, g1)" "stage1 p st0 g1 = Some (v1, Some fs, g2)"
      "stage2 p fs g2 = Some (s, g3)"
    using that by (simp add: solve_def)
  from a finalizeResult_internal_error [of p best r k] show ?thesis by blast
qed

theorem internal_error_is_failure_witness:
  "initializeState hubProblem steady = Some (Some midState, steady) \<and>
   map_option fst (stage1 hubProblem midState steady) \<noteq> None \<and>
   map_option fst (stage2 hubProblem midState steady) \<noteq> None \<and>
   solveResult hubProblem steady = finalizeResult hubProblem midState \<and>
   map_option message (solveResult hubProblem steady) = Some ''Solution found and optimized.'' \<and>
   countLinkViolations hubProblem (desiredLinks hubProblem) farState = Some 2 \<and>
   map_option success (finalizeResult hubProblem farState) = Some False"
proof -
  obtain r where r: "finalizeResult hubProblem farState = Some r"
    using far_final_some by auto
  note t = internal_error_is_failure [where p = hubProblem and g = steady and ?st0.0 = midState
      and ?g1.0 = steady and fs = midState and ?g2.0 = steady and ?g3.0 = steady
      and ?v1.0 = "\<lparr>currentState = midState, bestViolationState = midState,
                       minViolationsFound = 0\<rparr>"
      and s = "\<lparr>currentState = midState, currentFullCost = 0, minCost = 0,
                 bestState = midState, temperature = initialTemperature\<rparr>"
      and best = farState and r = r and k = 2]
  from t hub_init stage1_mid stage2_mid
  have "solve hubProblem steady = (case finalizeResult hubProblem midState of
                       None \<Rightarrow> None
                     | Some r \<Rightarrow> Some (r, steady))"
    by simp
  then have sr: "solveResult hubProblem steady = finalizeResult hubProblem midState"
    by (cases "finalizeResult hubProblem midState") (simp_all add: solveResult_def)
  from t r far_links have "\<not> success r" by simp
  with r far_links sr hub_init stage1_mid stage2_mid mid_final show ?thesis by simp
qed

end
